theory Spec2Isabelle
  imports Complex_Main "HOL-Library.Word" "HOL-Library.Multiset"
begin

section \<open>Values of the TTS service\<close>

text \<open>
  The service of \<^verbatim>\<open>api/src/services/tts_service.py\<close> moves audio between three
  collaborators: the model manager, the voice manager and the audio encoder. Audio from
  the model is a numpy array; the model below keeps its dimensionality (\<open>ndim\<close>), since
  \<^verbatim>\<open>generate_audio\<close> filters on it and \<^verbatim>\<open>len\<close> fails on a zero-dimensional array.
  The sample type \<open>'s\<close> stays abstract: the service never computes on samples.
\<close>

type_synonym byte = "8 word"

datatype 's ndarray = Arr0 's | Arr1 "'s list"

fun ndim :: "'s ndarray \<Rightarrow> nat" where
  "ndim (Arr0 x) = 0"
| "ndim (Arr1 xs) = 1"

text \<open>
  Python exceptions, by class and message. \<open>External\<close> stands for an exception of a
  collaborator (model manager, voice manager, encoder, segmenter, torch) that is a
  subclass of \<^verbatim>\<open>Exception\<close>; \<open>Interrupted\<close> stands for one that is a
  \<^verbatim>\<open>BaseException\<close> only: \<^verbatim>\<open>asyncio.CancelledError\<close>, \<^verbatim>\<open>KeyboardInterrupt\<close>,
  \<^verbatim>\<open>SystemExit\<close>. The other classes are the ones the service or the interpreter
  raises inside the service's own code. Every handler of the service is
  \<^verbatim>\<open>except Exception\<close>: it catches what \<open>is_Exception\<close> holds of and lets the rest
  pass.
\<close>

datatype exn =
    RuntimeError string
  | ValueError string
  | TypeError string
  | AttributeError string
  | External string
  | Interrupted string

fun is_Exception :: "exn \<Rightarrow> bool" where
  "is_Exception (Interrupted m) = False"
| "is_Exception e = True"

fun str_exn :: "exn \<Rightarrow> string" where
  "str_exn (RuntimeError m) = m"
| "str_exn (ValueError m) = m"
| "str_exn (TypeError m) = m"
| "str_exn (AttributeError m) = m"
| "str_exn (External m) = m"
| "str_exn (Interrupted m) = m"

text \<open>Whether the outcome of a block passes an \<^verbatim>\<open>except Exception\<close> handler.\<close>

fun escapes :: "exn option \<Rightarrow> bool" where
  "escapes None = False"
| "escapes (Some e) = (\<not> is_Exception e)"

text \<open>
  What a call to a collaborator can raise: a failure (an \<^verbatim>\<open>Exception\<close>) or an
  interruption (a cancellation of the task, a keyboard interrupt).
\<close>

datatype fault = Failure string | Interrupt string

fun raised_by :: "fault \<Rightarrow> exn" where
  "raised_by (Failure m) = External m"
| "raised_by (Interrupt m) = Interrupted m"

datatype level = DEBUG | WARNING | ERROR

text \<open>
  An asynchronous generator run to exhaustion is the list of what it did, in order: the
  values it yielded and the lines it logged. How it ended (normally, or by raising) is
  returned beside the list.
\<close>

datatype 'a event = Yield 'a | Log level string

fun yields :: "'a event list \<Rightarrow> 'a list" where
  "yields [] = []"
| "yields (Yield x # es) = x # yields es"
| "yields (Log l m # es) = yields es"

fun logged :: "'a event list \<Rightarrow> (level \<times> string) list" where
  "logged [] = []"
| "logged (Yield x # es) = logged es"
| "logged (Log l m # es) = (l, m) # logged es"

text \<open>
  What \<^verbatim>\<open>_process_chunk\<close> yields: Python's \<^verbatim>\<open>None\<close>, a raw array, or the
  bytes \<^verbatim>\<open>AudioService.convert_audio\<close> returned. An encoded unit remembers the
  \<^verbatim>\<open>is_first_chunk\<close> and \<^verbatim>\<open>is_last_chunk\<close> flags its encoder call was given; the
  caller of the service sees the payload only.
\<close>

datatype 's chunk =
    NoneChunk
  | RawChunk "'s ndarray"
  | EncodedChunk bool bool "byte list"

fun is_encoded :: "'s chunk \<Rightarrow> bool" where
  "is_encoded (EncodedChunk f l b) = True"
| "is_encoded c = False"

fun enc_first :: "'s chunk \<Rightarrow> bool" where
  "enc_first (EncodedChunk f l b) = f"
| "enc_first c = False"

fun enc_last :: "'s chunk \<Rightarrow> bool" where
  "enc_last (EncodedChunk f l b) = l"
| "enc_last c = False"

datatype backend = KokoroV1 | LegacyBackend string

text \<open>
  The collaborators, as the service calls them. A call that can raise returns a sum, the
  fault on the left.
  \<^item> \<open>semaphore_acquire\<close>: entering \<^verbatim>\<open>async with self._chunk_semaphore\<close>; the wait
    for a permit either ends with the permit or is broken off by a fault, the same way at
    every call of one run.
  \<^item> \<open>mm_get_backend\<close>: \<^verbatim>\<open>model_manager.get_backend()\<close>; a legacy backend carries its device.
  \<^item> \<open>smart_split\<close>: the segments \<^verbatim>\<open>smart_split(text)\<close> yields, and the exception that
    ends the sequence early, if any.
  \<^item> \<open>mm_generate_kokoro\<close>: the text-native \<^verbatim>\<open>model_manager.generate\<close>, an asynchronous
    generator: what it yields (an item may be \<^verbatim>\<open>None\<close>) and the exception that ends it.
  \<^item> \<open>mm_generate_legacy\<close>: the token-native \<^verbatim>\<open>model_manager.generate\<close>, one result.
  \<^item> \<open>convert_audio\<close>: \<^verbatim>\<open>AudioService.convert_audio(audio, rate, format, is_first_chunk,
    normalizer, is_last_chunk)\<close>; it returns the bytes or raises, and leaves the normalizer
    in a new state.
  \<^item> \<open>AudioNormalizer\<close>: the state of a fresh normalizer.
  \<^item> \<open>vm_get_voice_path\<close>, \<open>vm_load_voice\<close>: the voice manager.
  \<^item> \<open>torch_mean_stack\<close>: \<^verbatim>\<open>torch.mean(torch.stack(tensors), dim=0)\<close>.
  \<^item> \<open>torch_save\<close>: whether \<^verbatim>\<open>torch.save\<close> fails at a path (a missing directory, a
    full disk); when it does not, the file is written.
  \<^item> \<open>gettempdir\<close>: \<^verbatim>\<open>tempfile.gettempdir()\<close>.
\<close>

record ('s, 'n, 't) env =
  semaphore_acquire :: "fault option"
  mm_get_backend :: "fault + backend"
  smart_split :: "string \<Rightarrow> (string \<times> int list) list \<times> fault option"
  mm_generate_kokoro :: "string \<Rightarrow> string \<times> string \<Rightarrow> real \<Rightarrow> 's ndarray option list \<times> fault option"
  mm_generate_legacy :: "int list \<Rightarrow> 't \<Rightarrow> real \<Rightarrow> fault + 's ndarray option"
  convert_audio :: "'s ndarray option \<Rightarrow> nat \<Rightarrow> string \<Rightarrow> bool \<Rightarrow> 'n \<Rightarrow> bool \<Rightarrow> (fault + byte list) \<times> 'n"
  AudioNormalizer :: "'n"
  vm_get_voice_path :: "string \<Rightarrow> fault + string option"
  vm_load_voice :: "string \<Rightarrow> string \<Rightarrow> fault + 't"
  torch_mean_stack :: "'t list \<Rightarrow> fault + 't"
  torch_save :: "string \<Rightarrow> fault option"
  gettempdir :: "string"

section \<open>The chunk synthesizer\<close>

text \<open>Truth value of \<^verbatim>\<open>output_format\<close>: \<^verbatim>\<open>None\<close> and the empty string are false.\<close>

fun truthy :: "string option \<Rightarrow> bool" where
  "truthy None = False"
| "truthy (Some s) = (s \<noteq> [])"

fun raw_unit :: "'s ndarray option \<Rightarrow> 's chunk" where
  "raw_unit None = NoneChunk"
| "raw_unit (Some a) = RawChunk a"

text \<open>
  The block both backends share (lines 91-105 and 124-138): with an output format the
  audio goes through the encoder, and an encoder failure is logged and the chunk dropped
  (the handler of lines 102 and 135); without one the audio is yielded as it is. The
  result is the events, the exception that passes the handler (if any) and the normalizer
  afterwards.
\<close>

definition emit_audio ::
  "('s, 'n, 't) env \<Rightarrow> string option \<Rightarrow> bool \<Rightarrow> bool \<Rightarrow> 's ndarray option \<Rightarrow> 'n
    \<Rightarrow> 's chunk event list \<times> exn option \<times> 'n" where
  "emit_audio E output_format is_first is_last chunk_audio n =
     (if truthy output_format then
        (case convert_audio E chunk_audio 24000 (the output_format) is_first n is_last of
           (Inr converted, n') \<Rightarrow>
             ([Yield (EncodedChunk is_first is_last converted)], None, n')
         | (Inl f, n') \<Rightarrow>
             (if is_Exception (raised_by f) then
                ([Log ERROR (''Failed to convert audio: '' @ str_exn (raised_by f))], None, n')
              else ([], Some (raised_by f), n')))
      else ([Yield (raw_unit chunk_audio)], None, n))"

text \<open>
  The loop over what the text-native model yields (lines 85-105); it ends early when an
  exception leaves the block.
\<close>

fun kokoro_loop ::
  "('s, 'n, 't) env \<Rightarrow> string option \<Rightarrow> bool \<Rightarrow> bool \<Rightarrow> 's ndarray option list \<Rightarrow> 'n
    \<Rightarrow> 's chunk event list \<times> exn option \<times> 'n" where
  "kokoro_loop E output_format is_first is_last [] n = ([], None, n)"
| "kokoro_loop E output_format is_first is_last (chunk_audio # rest) n =
     (case emit_audio E output_format is_first is_last chunk_audio n of
        (ev, Some e, n') \<Rightarrow> (ev, Some e, n')
      | (ev, None, n') \<Rightarrow>
          (case kokoro_loop E output_format is_first is_last rest n' of
             (evs, ended, n'') \<Rightarrow> (ev @ evs, ended, n'')))"

text \<open>
  The body of \<^verbatim>\<open>_process_chunk\<close> inside its \<^verbatim>\<open>try\<close> (lines 57-138): the events, the
  exception that left the body (if any) and the normalizer afterwards.
\<close>

definition process_chunk_body ::
  "('s::zero, 'n, 't) env \<Rightarrow> string \<Rightarrow> int list \<Rightarrow> string \<Rightarrow> string \<Rightarrow> real \<Rightarrow> string option
    \<Rightarrow> bool \<Rightarrow> bool \<Rightarrow> 'n \<Rightarrow> 's chunk event list \<times> exn option \<times> 'n" where
  "process_chunk_body E chunk_text tokens voice_name voice_path speed output_format
      is_first is_last n =
     (if is_last then
        (if \<not> truthy output_format then ([Yield (RawChunk (Arr1 []))], None, n)
         else
           (case convert_audio E (Some (Arr1 [0])) 24000 (the output_format) False n True of
              (Inr result, n') \<Rightarrow> ([Yield (EncodedChunk False True result)], None, n')
            | (Inl f, n') \<Rightarrow> ([], Some (raised_by f), n')))
      else if tokens = [] \<and> chunk_text = [] then ([], None, n)
      else
        (case mm_get_backend E of
           Inl f \<Rightarrow> ([], Some (raised_by f), n)
         | Inr KokoroV1 \<Rightarrow>
             (case mm_generate_kokoro E chunk_text (voice_name, voice_path) speed of
                (items, ended) \<Rightarrow>
                  (case kokoro_loop E output_format is_first is_last items n of
                     (evs, Some e, n') \<Rightarrow> (evs, Some e, n')
                   | (evs, None, n') \<Rightarrow> (evs, map_option raised_by ended, n')))
         | Inr (LegacyBackend device) \<Rightarrow>
             (case vm_load_voice E voice_name device of
                Inl f \<Rightarrow> ([], Some (raised_by f), n)
              | Inr voice_tensor \<Rightarrow>
                  (case mm_generate_legacy E tokens voice_tensor speed of
                     Inl f \<Rightarrow> ([], Some (raised_by f), n)
                   | Inr None \<Rightarrow>
                       ([Log ERROR ''Model generated None for audio chunk''], None, n)
                   | Inr (Some (Arr0 x)) \<Rightarrow>
                       ([], Some (TypeError ''len() of unsized object''), n)
                   | Inr (Some (Arr1 xs)) \<Rightarrow>
                       (if length xs = 0 then
                          ([Log ERROR ''Model generated empty audio chunk''], None, n)
                        else emit_audio E output_format is_first is_last (Some (Arr1 xs)) n)))))"

text \<open>
  \<^verbatim>\<open>_process_chunk\<close> (lines 55-140). The permit of the semaphore is awaited first,
  outside the \<^verbatim>\<open>try\<close>: a fault there leaves the generator at once. Then the body
  runs under the handler of lines 139-140, which catches an \<^verbatim>\<open>Exception\<close>, logs it
  and lets the generator end; any other exception passes. The permit is given back on
  every path and one request running alone holds at most one, so no count is kept.
\<close>

definition process_chunk ::
  "('s::zero, 'n, 't) env \<Rightarrow> string \<Rightarrow> int list \<Rightarrow> string \<Rightarrow> string \<Rightarrow> real \<Rightarrow> string option
    \<Rightarrow> bool \<Rightarrow> bool \<Rightarrow> 'n \<Rightarrow> 's chunk event list \<times> exn option \<times> 'n" where
  "process_chunk E chunk_text tokens voice_name voice_path speed output_format
      is_first is_last n =
     (case semaphore_acquire E of
        Some f \<Rightarrow> ([], Some (raised_by f), n)
      | None \<Rightarrow>
          (case process_chunk_body E chunk_text tokens voice_name voice_path speed
                  output_format is_first is_last n of
             (evs, Some e, n') \<Rightarrow>
               (if is_Exception e then
                  (evs @ [Log ERROR (''Failed to process tokens: '' @ str_exn e)], None, n')
                else (evs, Some e, n'))
           | (evs, None, n') \<Rightarrow> (evs, None, n')))"

section \<open>The voice resolver\<close>

text \<open>
  Python's \<^verbatim>\<open>str.split(sep)\<close> for a one-character separator: every occurrence
  splits, and empty fields are kept. Text is modelled as a list of 8-bit characters
  (code points below 256).
\<close>

fun split_on :: "char \<Rightarrow> string \<Rightarrow> string list" where
  "split_on c [] = [[]]"
| "split_on c (x # xs) =
     (if x = c then [] # split_on c xs
      else (case split_on c xs of
              [] \<Rightarrow> [[x]]
            | p # ps \<Rightarrow> (x # p) # ps))"

text \<open>
  Python's \<^verbatim>\<open>str.isspace\<close> on a code point below 256: tab, line feed, vertical tab,
  form feed, carriage return, the four separators 28-31, space, next line (133) and
  no-break space (160). \<^verbatim>\<open>str.strip()\<close> removes such characters at both ends.
\<close>

definition is_space :: "char \<Rightarrow> bool" where
  "is_space c = ((of_char c :: nat) \<in> {9, 10, 11, 12, 13, 28, 29, 30, 31, 32, 133, 160})"

definition strip :: "string \<Rightarrow> string" where
  "strip s = rev (dropWhile is_space (rev (dropWhile is_space s)))"

text \<open>
  \<^verbatim>\<open>os.path.join(a, b)\<close> on POSIX: an absolute \<open>b\<close> replaces \<open>a\<close>; otherwise the
  two are joined by one slash unless \<open>a\<close> is empty or ends with one.
\<close>

definition path_join :: "string \<Rightarrow> string \<Rightarrow> string" where
  "path_join a b =
     (if b \<noteq> [] \<and> hd b = CHR ''/'' then b
      else if a = [] \<or> last a = CHR ''/'' then a @ b
      else a @ ''/'' @ b)"

text \<open>
  The voice files on disk: a store from paths to tensors. \<^verbatim>\<open>torch.load\<close> raises on a
  path with no file; \<^verbatim>\<open>torch.save\<close> writes the file, unless it fails.
\<close>

type_synonym 't files = "string \<rightharpoonup> 't"

text \<open>The loop of lines 162-169: look each name up, load its tensor, keep the order.\<close>

fun load_voices ::
  "('s, 'n, 't) env \<Rightarrow> 't files \<Rightarrow> string list
    \<Rightarrow> (level \<times> string) list \<times> (exn + 't list)" where
  "load_voices E fs [] = ([], Inr [])"
| "load_voices E fs (v # vs) =
     (case vm_get_voice_path E v of
        Inl f \<Rightarrow> ([], Inl (raised_by f))
      | Inr p \<Rightarrow>
          (if p = None \<or> p = Some [] then ([], Inl (RuntimeError (''Voice not found: '' @ v)))
           else
             (case fs (the p) of
                None \<Rightarrow>
                  ([(DEBUG, ''Loading voice tensor from: '' @ the p)],
                   Inl (External (''No such file or directory: '' @ the p)))
              | Some voice_tensor \<Rightarrow>
                  (case load_voices E fs vs of
                     (lg, Inl e) \<Rightarrow>
                       ((DEBUG, ''Loading voice tensor from: '' @ the p) # lg, Inl e)
                   | (lg, Inr voice_tensors) \<Rightarrow>
                       ((DEBUG, ''Loading voice tensor from: '' @ the p) # lg,
                        Inr (voice_tensor # voice_tensors))))))"

text \<open>Decimal digits of a number, for the \<^verbatim>\<open>len\<close> in a log line.\<close>

fun str_nat :: "nat \<Rightarrow> string" where
  "str_nat n =
     (if n < 10 then [char_of (48 + n)]
      else str_nat (n div 10) @ [char_of (48 + n mod 10)])"

text \<open>The names of a combined spec (line 157).\<close>

definition voice_names :: "string \<Rightarrow> string list" where
  "voice_names voice = filter (\<lambda>v. v \<noteq> []) (map strip (split_on CHR ''+'' voice))"

text \<open>The body of \<^verbatim>\<open>_get_voice_path\<close> inside its \<^verbatim>\<open>try\<close> (lines 155-188).\<close>

definition get_voice_path_body ::
  "('s, 'n, 't) env \<Rightarrow> string \<Rightarrow> 't files
    \<Rightarrow> (level \<times> string) list \<times> (exn + string \<times> string) \<times> 't files" where
  "get_voice_path_body E voice fs =
     (if CHR ''+'' \<in> set voice then
        (let voices = voice_names voice in
         if length voices < 2 then
           ([], Inl (RuntimeError (''Invalid combined voice name: '' @ voice)), fs)
         else
           (case load_voices E fs voices of
              (lg, Inl e) \<Rightarrow> (lg, Inl e, fs)
            | (lg, Inr voice_tensors) \<Rightarrow>
                (let lg1 = lg @ [(DEBUG, ''Combining '' @ str_nat (length voice_tensors)
                                            @ '' voice tensors'')] in
                 case torch_mean_stack E voice_tensors of
                   Inl f \<Rightarrow> (lg1, Inl (raised_by f), fs)
                 | Inr combined \<Rightarrow>
                     (let combined_path = path_join (gettempdir E) (voice @ ''.pt'');
                          lg2 = lg1 @ [(DEBUG, ''Saving combined voice to: '' @ combined_path)]
                      in case torch_save E combined_path of
                           Some f \<Rightarrow> (lg2, Inl (raised_by f), fs)
                         | None \<Rightarrow>
                             (lg2, Inr (voice, combined_path),
                              fs(combined_path \<mapsto> combined))))))
      else
        (case vm_get_voice_path E voice of
           Inl f \<Rightarrow> ([], Inl (raised_by f), fs)
         | Inr p \<Rightarrow>
             (if p = None \<or> p = Some [] then
                ([], Inl (RuntimeError (''Voice not found: '' @ voice)), fs)
              else
                ([(DEBUG, ''Using single voice path: '' @ the p)], Inr (voice, the p), fs))))"

text \<open>
  \<^verbatim>\<open>_get_voice_path\<close>: the body under its handler (lines 189-191), which logs an
  \<^verbatim>\<open>Exception\<close> and raises it again.
\<close>

definition get_voice_path ::
  "('s, 'n, 't) env \<Rightarrow> string \<Rightarrow> 't files
    \<Rightarrow> (level \<times> string) list \<times> (exn + string \<times> string) \<times> 't files" where
  "get_voice_path E voice fs =
     (case get_voice_path_body E voice fs of
        (lg, Inl e, fs') \<Rightarrow>
          (if is_Exception e then
             (lg @ [(ERROR, ''Failed to get voice path: '' @ str_exn e)], Inl e, fs')
           else (lg, Inl e, fs'))
      | (lg, Inr r, fs') \<Rightarrow> (lg, Inr r, fs'))"

section \<open>The stream orchestrator\<close>

definition quoted :: "string \<Rightarrow> string" where
  "quoted s = [CHR 0x27] @ s @ [CHR 0x27]"

text \<open>
  The consumer loop of lines 216-231 over the events of one \<^verbatim>\<open>_process_chunk\<close> call:
  a result that is not \<^verbatim>\<open>None\<close> is yielded and counted, a \<^verbatim>\<open>None\<close> is logged. The
  log lines of the generator pass through where they happened.
\<close>

fun relay :: "string \<Rightarrow> 's chunk event list \<Rightarrow> nat \<Rightarrow> 's chunk event list \<times> nat" where
  "relay chunk_text [] chunk_index = ([], chunk_index)"
| "relay chunk_text (Log l m # es) chunk_index =
     (case relay chunk_text es chunk_index of (out, i) \<Rightarrow> (Log l m # out, i))"
| "relay chunk_text (Yield NoneChunk # es) chunk_index =
     (case relay chunk_text es chunk_index of
        (out, i) \<Rightarrow>
          (Log WARNING (''No audio generated for chunk: '' @ quoted (take 100 chunk_text @ ''...''))
             # out, i))"
| "relay chunk_text (Yield result # es) chunk_index =
     (case relay chunk_text es (chunk_index + 1) of (out, i) \<Rightarrow> (Yield result # out, i))"

text \<open>The consumer loop of the finalization call (lines 241-253): no count, no warning.\<close>

fun relay_final :: "'s chunk event list \<Rightarrow> 's chunk event list" where
  "relay_final [] = []"
| "relay_final (Log l m # es) = Log l m # relay_final es"
| "relay_final (Yield NoneChunk # es) = relay_final es"
| "relay_final (Yield result # es) = Yield result # relay_final es"

text \<open>
  One \<^verbatim>\<open>_process_chunk\<close> call as the orchestrator makes it: the text, the tokens and the
  two flags. The orchestrator's result lists its calls in order.
\<close>

record pc_call =
  call_text :: string
  call_tokens :: "int list"
  call_first :: bool
  call_last :: bool

text \<open>
  What the loop over the segments leaves: its events, the counter, the normalizer, the
  calls it made, and the exception that broke it off (if any).
\<close>

record ('s, 'n) loop_result =
  loop_events :: "'s chunk event list"
  loop_index :: nat
  loop_norm :: "'n"
  loop_calls :: "pc_call list"
  loop_raised :: "exn option"

text \<open>
  The loop over the segments (lines 213-235). \<^verbatim>\<open>is_first\<close> is computed from the counter
  when the call for a segment is made. The handler of lines 233-235 logs an
  \<^verbatim>\<open>Exception\<close> that leaves \<^verbatim>\<open>_process_chunk\<close> and goes on with the next segment; any
  other exception ends the loop.
\<close>

fun segments_loop ::
  "('s::zero, 'n, 't) env \<Rightarrow> string \<Rightarrow> string \<Rightarrow> real \<Rightarrow> string option
    \<Rightarrow> (string \<times> int list) list \<Rightarrow> nat \<Rightarrow> 'n \<Rightarrow> ('s, 'n) loop_result" where
  "segments_loop E voice_name voice_path speed output_format [] chunk_index n =
     \<lparr>loop_events = [], loop_index = chunk_index, loop_norm = n, loop_calls = [],
      loop_raised = None\<rparr>"
| "segments_loop E voice_name voice_path speed output_format ((chunk_text, tokens) # rest)
      chunk_index n =
     (case process_chunk E chunk_text tokens voice_name voice_path speed output_format
             (chunk_index = 0) False n of
        (evs, ended, n1) \<Rightarrow>
          (case relay chunk_text evs chunk_index of
             (out, i1) \<Rightarrow>
               (let call = \<lparr>call_text = chunk_text, call_tokens = tokens,
                            call_first = (chunk_index = 0), call_last = False\<rparr>;
                    handled =
                      (case ended of
                         None \<Rightarrow> []
                       | Some e \<Rightarrow>
                           [Log ERROR (''Failed to process audio for chunk: ''
                              @ quoted (take 100 chunk_text @ ''...'')
                              @ ''. Error: '' @ str_exn e)])
                in if escapes ended then
                     \<lparr>loop_events = out, loop_index = i1, loop_norm = n1, loop_calls = [call],
                      loop_raised = ended\<rparr>
                   else
                     (let r = segments_loop E voice_name voice_path speed output_format rest
                                i1 n1
                      in r\<lparr>loop_events := out @ handled @ loop_events r,
                            loop_calls := call # loop_calls r\<rparr>))))"

definition final_call :: pc_call where
  "final_call = \<lparr>call_text = [], call_tokens = [], call_first = False, call_last = True\<rparr>"

text \<open>
  What one run of \<^verbatim>\<open>generate_audio_stream\<close> to exhaustion leaves: its events, the
  exception it raised to its consumer (if any), the counter \<^verbatim>\<open>chunk_index\<close> at the end,
  the \<^verbatim>\<open>_process_chunk\<close> calls it made, the voice files afterwards, and whether the
  segment sequence was exhausted: \<open>exhausted\<close> holds the state of the stream's normalizer
  at the end of the loop over the segments, when the loop got there.
\<close>

record ('s, 'n, 't) stream_result =
  trace :: "'s chunk event list"
  raised :: "exn option"
  chunk_index :: nat
  calls :: "pc_call list"
  files_after :: "'t files"
  exhausted :: "'n option"

definition log_events :: "(level \<times> string) list \<Rightarrow> 'a event list" where
  "log_events lg = map (\<lambda>(l, m). Log l m) lg"

text \<open>
  The outer handler of \<^verbatim>\<open>generate_audio_stream\<close> (lines 257-259): an
  \<^verbatim>\<open>Exception\<close> is logged before it is raised again.
\<close>

definition stream_handler :: "exn \<Rightarrow> 'a event list" where
  "stream_handler e =
     (if is_Exception e then [Log ERROR (''Error in phoneme audio generation: '' @ str_exn e)]
      else [])"

text \<open>
  \<^verbatim>\<open>generate_audio_stream\<close> (lines 193-259). The handler of lines 254-255 around the
  finalization call logs an \<^verbatim>\<open>Exception\<close> and ends the stream normally.
\<close>

definition generate_audio_stream ::
  "('s::zero, 'n, 't) env \<Rightarrow> string \<Rightarrow> string \<Rightarrow> real \<Rightarrow> string option \<Rightarrow> 't files
    \<Rightarrow> ('s, 'n, 't) stream_result" where
  "generate_audio_stream E text voice speed output_format fs =
     (case mm_get_backend E of
        Inl f \<Rightarrow>
          \<lparr>trace = stream_handler (raised_by f), raised = Some (raised_by f), chunk_index = 0,
           calls = [], files_after = fs, exhausted = None\<rparr>
      | Inr backend \<Rightarrow>
          (case get_voice_path E voice fs of
             (lg, Inl e, fs') \<Rightarrow>
               \<lparr>trace = log_events lg @ stream_handler e, raised = Some e, chunk_index = 0,
                calls = [], files_after = fs', exhausted = None\<rparr>
           | (lg, Inr (voice_name, voice_path), fs') \<Rightarrow>
               (case smart_split E text of
                  (segments, ended) \<Rightarrow>
                    (let r = segments_loop E voice_name voice_path speed output_format segments 0
                               (AudioNormalizer E);
                         started = log_events lg
                           @ [Log DEBUG (''Using voice path: '' @ voice_path)] @ loop_events r
                     in case loop_raised r of
                          Some e \<Rightarrow>
                            \<lparr>trace = started @ stream_handler e, raised = Some e,
                             chunk_index = loop_index r, calls = loop_calls r,
                             files_after = fs', exhausted = None\<rparr>
                        | None \<Rightarrow>
                            (case ended of
                               Some f \<Rightarrow>
                                 \<lparr>trace = started @ stream_handler (raised_by f),
                                  raised = Some (raised_by f), chunk_index = loop_index r,
                                  calls = loop_calls r, files_after = fs', exhausted = None\<rparr>
                             | None \<Rightarrow>
                                 (if loop_index r > 0 then
                                    (case process_chunk E [] [] voice_name voice_path speed
                                            output_format False True (loop_norm r) of
                                       (fin, fin_ended, n') \<Rightarrow>
                                         (case fin_ended of
                                            None \<Rightarrow>
                                              \<lparr>trace = started @ relay_final fin, raised = None,
                                               chunk_index = loop_index r,
                                               calls = loop_calls r @ [final_call],
                                               files_after = fs',
                                               exhausted = Some (loop_norm r)\<rparr>
                                          | Some e \<Rightarrow>
                                              (if is_Exception e then
                                                 \<lparr>trace = started @ relay_final fin
                                                    @ [Log ERROR
                                                         (''Failed to finalize audio stream: ''
                                                            @ str_exn e)],
                                                  raised = None, chunk_index = loop_index r,
                                                  calls = loop_calls r @ [final_call],
                                                  files_after = fs',
                                                  exhausted = Some (loop_norm r)\<rparr>
                                               else
                                                 \<lparr>trace = started @ relay_final fin
                                                    @ stream_handler e,
                                                  raised = Some e, chunk_index = loop_index r,
                                                  calls = loop_calls r @ [final_call],
                                                  files_after = fs',
                                                  exhausted = Some (loop_norm r)\<rparr>)))
                                  else
                                    \<lparr>trace = started, raised = None,
                                     chunk_index = loop_index r, calls = loop_calls r,
                                     files_after = fs',
                                     exhausted = Some (loop_norm r)\<rparr>))))))"

section \<open>The aggregate synthesizer\<close>

text \<open>
  The comprehension of line 284 reads \<^verbatim>\<open>c.ndim\<close> of every chunk in turn. An array
  has it; \<^verbatim>\<open>bytes\<close> and \<^verbatim>\<open>None\<close> do not, and the attribute access raises.
\<close>

fun valid_chunks :: "'s chunk list \<Rightarrow> exn + 's chunk list" where
  "valid_chunks [] = Inr []"
| "valid_chunks (RawChunk a # cs) =
     (case valid_chunks cs of
        Inl e \<Rightarrow> Inl e
      | Inr vs \<Rightarrow> Inr (if ndim a > 0 then RawChunk a # vs else vs))"
| "valid_chunks (EncodedChunk f l b # cs) =
     Inl (AttributeError (quoted ''bytes'' @ '' object has no attribute '' @ quoted ''ndim''))"
| "valid_chunks (NoneChunk # cs) =
     Inl (AttributeError (quoted ''NoneType'' @ '' object has no attribute '' @ quoted ''ndim''))"

fun samples_of :: "'s chunk \<Rightarrow> 's list" where
  "samples_of (RawChunk (Arr1 xs)) = xs"
| "samples_of c = []"

text \<open>\<^verbatim>\<open>np.concatenate\<close> on one-dimensional arrays.\<close>

definition np_concatenate :: "'s chunk list \<Rightarrow> 's chunk" where
  "np_concatenate cs = RawChunk (Arr1 (concat (map samples_of cs)))"

text \<open>
  The chunks \<^verbatim>\<open>generate_audio\<close> collects (lines 270-274). The call passes text, voice
  and speed only, so the stream runs with its default \<^verbatim>\<open>output_format="wav"\<close>.
\<close>

definition collected ::
  "('s::zero, 'n, 't) env \<Rightarrow> string \<Rightarrow> string \<Rightarrow> real \<Rightarrow> 't files \<Rightarrow> 's chunk list" where
  "collected E text voice speed fs =
     filter (\<lambda>chunk. chunk \<noteq> NoneChunk)
       (yields (trace (generate_audio_stream E text voice speed (Some ''wav'') fs)))"

text \<open>
  \<^verbatim>\<open>generate_audio\<close> (lines 261-293): the log, then the audio or the exception raised.
  The handler of lines 291-293 logs an \<^verbatim>\<open>Exception\<close> before it is raised again. The
  elapsed time returned beside the audio is wall-clock time and is left out.
\<close>

definition generate_audio ::
  "('s::zero, 'n, 't) env \<Rightarrow> string \<Rightarrow> string \<Rightarrow> real \<Rightarrow> 't files
    \<Rightarrow> (level \<times> string) list \<times> (exn + 's chunk)" where
  "generate_audio E text voice speed fs =
     (let r = generate_audio_stream E text voice speed (Some ''wav'') fs;
          chunks = collected E text voice speed fs;
          res =
            (case raised r of
               Some e \<Rightarrow> Inl e
             | None \<Rightarrow>
                 (if chunks = [] then
                    Inl (ValueError ''No audio chunks were generated successfully'')
                  else if length chunks = 1 then Inr (chunks ! 0)
                  else
                    (case valid_chunks chunks of
                       Inl e \<Rightarrow> Inl e
                     | Inr valid \<Rightarrow>
                         (if valid = [] then
                            Inl (ValueError ''No valid audio chunks to concatenate'')
                          else Inr (np_concatenate valid)))))
      in (logged (trace r)
            @ (case res of
                 Inl e \<Rightarrow>
                   (if is_Exception e then
                      [(ERROR, ''Error in audio generation: '' @ str_exn e)]
                    else [])
               | Inr audio \<Rightarrow> []),
          res))"

section \<open>The spec's view of a stream\<close>







text \<open>
  Section 4.5, finalization: one closing unit after the last chunk; without an output
  format the empty raw array, with one what the encoder returns on the finalization call,
  and nothing when the encoder fails there.
\<close>

definition spec_final ::
  "('s::zero, 'n, 't) env \<Rightarrow> string option \<Rightarrow> 'n \<Rightarrow> 's chunk list" where
  "spec_final E output_format n =
     (if truthy output_format then
        (case fst (convert_audio E (Some (Arr1 [0])) 24000 (the output_format) False n True) of
           Inr bytes \<Rightarrow> [EncodedChunk False True bytes]
         | Inl f \<Rightarrow> [])
      else [RawChunk (Arr1 [])])"


section \<open>Combined voices\<close>

text \<open>
  Modelled from the spec: \<^verbatim>\<open>torch.stack\<close> and \<^verbatim>\<open>torch.mean\<close> are library code and
  not in the sources. Section 4.1 has the resolver "compute the element-wise arithmetic
  mean across all loaded embeddings". An embedding is a vector of numbers, all embeddings
  of one length, and the mean is taken in exact arithmetic; the rounding of 32-bit
  floating point is not part of this model.
\<close>

definition elementwise_mean :: "rat list list \<Rightarrow> rat list" where
  "elementwise_mean ts =
     map (\<lambda>j. sum_list (map (\<lambda>t. t ! j) ts) / of_nat (length ts)) [0..<length (hd ts)]"

text \<open>The tensor \<^verbatim>\<open>torch.load\<close> gives for a voice name, when the name resolves.\<close>

definition voice_file :: "('s, 'n, 't) env \<Rightarrow> 't files \<Rightarrow> string \<Rightarrow> 't option" where
  "voice_file E fs v =
     (case vm_get_voice_path E v of
        Inl f \<Rightarrow> None
      | Inr None \<Rightarrow> None
      | Inr (Some p) \<Rightarrow> if p = [] then None else fs p)"

section \<open>Example deployments\<close>

text \<open>
  A small deployment to run the service on: a token-native backend on the CPU, a segmenter
  that makes one segment of every word (its token is the word's length), a model that
  fails on the token 2 and otherwise returns the tokens as samples, an encoder that counts
  its calls in the normalizer and frames the first and the last chunk, and one voice.
\<close>

definition demo_legacy :: "(nat, nat, nat) env" where
  "demo_legacy =
     \<lparr>semaphore_acquire = None,
      mm_get_backend = Inr (LegacyBackend ''cpu''),
      smart_split = (\<lambda>t. if t = [] then ([], None)
                          else (map (\<lambda>w. (w, [int (length w)])) (split_on CHR '' '' t), None)),
      mm_generate_kokoro = (\<lambda>t v s. ([], None)),
      mm_generate_legacy = (\<lambda>tokens vt s. if tokens = [2] then Inl (Failure ''model failure'')
                                           else Inr (Some (Arr1 (map nat tokens)))),
      convert_audio = (\<lambda>a rate fmt first n final.
                         (Inr ((if first then [82, 73] else []) @ [of_nat n]
                               @ (if final then [255] else [])), n + 1)),
      AudioNormalizer = 0,
      vm_get_voice_path = (\<lambda>v. Inr (if v = ''af'' then Some ''/voices/af.pt'' else None)),
      vm_load_voice = (\<lambda>v d. Inr 7),
      torch_mean_stack = (\<lambda>ts. Inr (sum_list ts div length ts)),
      torch_save = (\<lambda>p. None),
      gettempdir = ''/tmp''\<rparr>"

text \<open>The same deployment with an encoder that cannot close the stream.\<close>

definition demo_noclose :: "(nat, nat, nat) env" where
  "demo_noclose =
     demo_legacy
       \<lparr>convert_audio := (\<lambda>a rate fmt first n final.
                            (if final then Inl (Failure ''cannot close the stream'')
                             else Inr ((if first then [82, 73] else []) @ [of_nat n]), n + 1))\<rparr>"


text \<open>
  A deployment with the text-native backend: the whole text is one segment, the model
  yields one sub-chunk per character, and the encoder cannot close the stream.
\<close>

definition demo_kokoro :: "(nat, nat, nat) env" where
  "demo_kokoro =
     \<lparr>semaphore_acquire = None,
      mm_get_backend = Inr KokoroV1,
      smart_split = (\<lambda>t. if t = [] then ([], None) else ([(t, [])], None)),
      mm_generate_kokoro = (\<lambda>t v s. (map (\<lambda>c. Some (Arr1 [of_char c])) t, None)),
      mm_generate_legacy = (\<lambda>tokens vt s. Inr None),
      convert_audio = (\<lambda>a rate fmt first n final.
                         (if final then Inl (Failure ''cannot close the stream'')
                          else Inr ((if first then [82, 73] else []) @ [of_nat n]), n + 1)),
      AudioNormalizer = 0,
      vm_get_voice_path = (\<lambda>v. Inr (if v = ''af'' then Some ''/voices/af.pt'' else None)),
      vm_load_voice = (\<lambda>v d. Inr 7),
      torch_mean_stack = (\<lambda>ts. Inr (sum_list ts div length ts)),
      torch_save = (\<lambda>p. None),
      gettempdir = ''/tmp''\<rparr>"

text \<open>
  A deployment with two voices on disk, embeddings of two numbers each, and the mean of
  the spec for \<^verbatim>\<open>torch.mean\<close>.
\<close>

definition demo_voices :: "(nat, nat, rat list) env" where
  "demo_voices =
     \<lparr>semaphore_acquire = None,
      mm_get_backend = Inr KokoroV1,
      smart_split = (\<lambda>t. ([], None)),
      mm_generate_kokoro = (\<lambda>t v s. ([], None)),
      mm_generate_legacy = (\<lambda>tokens vt s. Inr None),
      convert_audio = (\<lambda>a rate fmt first n final. (Inr [], n)),
      AudioNormalizer = 0,
      vm_get_voice_path = (\<lambda>v. Inr (if v = ''a'' then Some ''/voices/a.pt''
                                      else if v = ''b'' then Some ''/voices/b.pt'' else None)),
      vm_load_voice = (\<lambda>v d. Inr []),
      torch_mean_stack = (\<lambda>ts. Inr (elementwise_mean ts)),
      torch_save = (\<lambda>p. None),
      gettempdir = ''/tmp''\<rparr>"

definition demo_files :: "rat list files" where
  "demo_files = [''/voices/a.pt'' \<mapsto> [1, 3], ''/voices/b.pt'' \<mapsto> [3, 4]]"

section \<open>Lemmas\<close>

subsection \<open>Events and the consumer loops\<close>

lemma yields_append: "yields (xs @ ys) = yields xs @ yields ys"
  by (induction xs rule: yields.induct) simp_all

lemma logged_append: "logged (xs @ ys) = logged xs @ logged ys"
  by (induction xs rule: logged.induct) simp_all

lemma logged_iff: "((l, m) \<in> set (logged evs)) = (Log l m \<in> set evs)"
  by (induction evs rule: logged.induct) auto

lemma yields_log_events: "yields (log_events lg) = []"
  by (induction lg) (simp_all add: log_events_def split: prod.splits)

lemma yields_stream_handler: "yields (stream_handler e) = []"
  by (simp add: stream_handler_def)

lemma relay_final_yields:
  "yields (relay_final evs) = filter (\<lambda>c. c \<noteq> NoneChunk) (yields evs)"
  by (induction evs rule: relay_final.induct) simp_all

lemma relay_yields:
  "yields (fst (relay t evs i)) = filter (\<lambda>c. c \<noteq> NoneChunk) (yields evs)"
  by (induction t evs i rule: relay.induct) (auto split: prod.splits)

lemma relay_count:
  "snd (relay t evs i) = i + length (yields (fst (relay t evs i)))"
  by (induction t evs i rule: relay.induct) (auto split: prod.splits)


lemma emit_audio_cases:
  obtains (raw) "\<not> truthy fmt"
      "emit_audio E fmt f l a n = ([Yield (raw_unit a)], None, n)"
    | (encoded) b n' where "truthy fmt"
      "convert_audio E a 24000 (the fmt) f n l = (Inr b, n')"
      "emit_audio E fmt f l a n = ([Yield (EncodedChunk f l b)], None, n')"
    | (dropped) m n' where "truthy fmt"
      "convert_audio E a 24000 (the fmt) f n l = (Inl (Failure m), n')"
      "emit_audio E fmt f l a n = ([Log ERROR (''Failed to convert audio: '' @ m)], None, n')"
    | (interrupted) m n' where "truthy fmt"
      "convert_audio E a 24000 (the fmt) f n l = (Inl (Interrupt m), n')"
      "emit_audio E fmt f l a n = ([], Some (Interrupted m), n')"
proof (cases "truthy fmt")
  case False
  then show ?thesis by (intro raw) (simp_all add: emit_audio_def)
next
  case True
  obtain res n' where c: "convert_audio E a 24000 (the fmt) f n l = (res, n')"
    by (cases "convert_audio E a 24000 (the fmt) f n l")
  show ?thesis
  proof (cases res)
    case (Inr b)
    with True c show ?thesis by (intro encoded[of b n']) (simp_all add: emit_audio_def)
  next
    case (Inl flt)
    show ?thesis
    proof (cases flt)
      case (Failure m)
      with True c Inl show ?thesis by (intro dropped[of m n']) (simp_all add: emit_audio_def)
    next
      case (Interrupt m)
      with True c Inl show ?thesis
        by (intro interrupted[of m n']) (simp_all add: emit_audio_def)
    qed
  qed
qed

lemma emit_audio_encoded:
  "truthy fmt \<Longrightarrow> c \<in> set (yields (fst (emit_audio E fmt f l a n))) \<Longrightarrow> \<exists>b. c = EncodedChunk f l b"
  by (cases rule: emit_audio_cases[of fmt E f l a n]) auto

lemma emit_audio_length: "length (yields (fst (emit_audio E fmt f l a n))) \<le> 1"
  by (cases rule: emit_audio_cases[of fmt E f l a n]) auto

lemma emit_audio_raised:
  "fst (snd (emit_audio E fmt f l a n)) = Some e \<Longrightarrow> \<not> is_Exception e"
  by (cases rule: emit_audio_cases[of fmt E f l a n]) auto

subsection \<open>The token-native deployment, evaluated\<close>

lemma demo_legacy_simps:
  "semaphore_acquire demo_legacy = None"
  "mm_get_backend demo_legacy = Inr (LegacyBackend ''cpu'')"
  "smart_split demo_legacy t =
     (if t = [] then ([], None)
      else (map (\<lambda>w. (w, [int (length w)])) (split_on CHR '' '' t), None))"
  "mm_generate_legacy demo_legacy tokens vt s =
     (if tokens = [2] then Inl (Failure ''model failure'')
      else Inr (Some (Arr1 (map nat tokens))))"
  "convert_audio demo_legacy a rate fmt first n final =
     (Inr ((if first then [82, 73] else []) @ [of_nat n] @ (if final then [255] else [])), n + 1)"
  "AudioNormalizer demo_legacy = 0"
  "vm_get_voice_path demo_legacy v = Inr (if v = ''af'' then Some ''/voices/af.pt'' else None)"
  "vm_load_voice demo_legacy v d = Inr 7"
  "torch_mean_stack demo_legacy ts = Inr (sum_list ts div length ts)"
  "torch_save demo_legacy p = None"
  "gettempdir demo_legacy = ''/tmp''"
  by (simp_all add: demo_legacy_def)

lemma demo_voice:
  "get_voice_path demo_legacy ''af'' Map.empty
     = ([(DEBUG, ''Using single voice path: /voices/af.pt'')], Inr (''af'', ''/voices/af.pt''), Map.empty)"
  by (simp add: get_voice_path_def get_voice_path_body_def demo_legacy_simps)

lemma demo_split:
  "smart_split demo_legacy ''a bb c'' = ([(''a'', [1]), (''bb'', [2]), (''c'', [1])], None)"
  by (simp add: demo_legacy_simps)

lemma demo_stream:
  "generate_audio_stream demo_legacy ''a bb c'' ''af'' 1 (Some ''wav'') Map.empty =
     \<lparr>trace =
        [Log DEBUG ''Using single voice path: /voices/af.pt'',
         Log DEBUG ''Using voice path: /voices/af.pt'',
         Yield (EncodedChunk True False [82, 73, 0]),
         Log ERROR ''Failed to process tokens: model failure'',
         Yield (EncodedChunk False False [1]),
         Yield (EncodedChunk False True [2, 255])],
      raised = None, chunk_index = 2,
      calls =
        [\<lparr>call_text = ''a'', call_tokens = [1], call_first = True, call_last = False\<rparr>,
         \<lparr>call_text = ''bb'', call_tokens = [2], call_first = False, call_last = False\<rparr>,
         \<lparr>call_text = ''c'', call_tokens = [1], call_first = False, call_last = False\<rparr>,
         \<lparr>call_text = [], call_tokens = [], call_first = False, call_last = True\<rparr>],
      files_after = Map.empty, exhausted = Some 2\<rparr>"
  by (simp add: generate_audio_stream_def demo_voice demo_split process_chunk_def
        process_chunk_body_def emit_audio_def log_events_def final_call_def demo_legacy_simps
        quoted_def)

lemma demo_stream_one:
  "generate_audio_stream demo_legacy ''a'' ''af'' 1 (Some ''wav'') Map.empty =
     \<lparr>trace =
        [Log DEBUG ''Using single voice path: /voices/af.pt'',
         Log DEBUG ''Using voice path: /voices/af.pt'',
         Yield (EncodedChunk True False [82, 73, 0]),
         Yield (EncodedChunk False True [1, 255])],
      raised = None, chunk_index = 1,
      calls =
        [\<lparr>call_text = ''a'', call_tokens = [1], call_first = True, call_last = False\<rparr>,
         \<lparr>call_text = [], call_tokens = [], call_first = False, call_last = True\<rparr>],
      files_after = Map.empty, exhausted = Some 1\<rparr>"
  by (simp add: generate_audio_stream_def demo_voice process_chunk_def
        process_chunk_body_def emit_audio_def log_events_def final_call_def demo_legacy_simps
        quoted_def)

lemma demo_stream_one_raw:
  "generate_audio_stream demo_legacy ''a'' ''af'' 1 None Map.empty =
     \<lparr>trace =
        [Log DEBUG ''Using single voice path: /voices/af.pt'',
         Log DEBUG ''Using voice path: /voices/af.pt'',
         Yield (RawChunk (Arr1 [1])),
         Yield (RawChunk (Arr1 []))],
      raised = None, chunk_index = 1,
      calls =
        [\<lparr>call_text = ''a'', call_tokens = [1], call_first = True, call_last = False\<rparr>,
         \<lparr>call_text = [], call_tokens = [], call_first = False, call_last = True\<rparr>],
      files_after = Map.empty, exhausted = Some 0\<rparr>"
  by (simp add: generate_audio_stream_def demo_voice process_chunk_def
        process_chunk_body_def emit_audio_def log_events_def final_call_def demo_legacy_simps
        quoted_def)

lemma demo_audio_one:
  "snd (generate_audio demo_legacy ''a'' ''af'' 1 Map.empty)
     = Inl (AttributeError (quoted ''bytes'' @ '' object has no attribute '' @ quoted ''ndim''))"
  by (simp add: generate_audio_def collected_def demo_stream_one)

lemma demo_stream_empty:
  "generate_audio_stream demo_legacy [] ''af'' 1 (Some ''wav'') Map.empty =
     \<lparr>trace =
        [Log DEBUG ''Using single voice path: /voices/af.pt'',
         Log DEBUG ''Using voice path: /voices/af.pt''],
      raised = None, chunk_index = 0, calls = [], files_after = Map.empty,
      exhausted = Some 0\<rparr>"
  by (simp add: generate_audio_stream_def demo_voice log_events_def demo_legacy_simps)

subsection \<open>The voice resolver\<close>

lemma raised_by_not_RuntimeError: "raised_by f \<noteq> RuntimeError m"
  by (cases f) simp_all

lemma load_voices_error:
  "snd (load_voices E fs vs) = Inl e
    \<Longrightarrow> (\<exists>m. e = External m) \<or> (\<exists>m. e = Interrupted m)
        \<or> (\<exists>v. e = RuntimeError (''Voice not found: '' @ v))"
proof (induction vs)
  case Nil
  then show ?case by simp
next
  case (Cons v vs)
  have rb: "(\<exists>m. raised_by f = External m) \<or> (\<exists>m. raised_by f = Interrupted m)" for f
    by (cases f) simp_all
  from Cons rb show ?case
    by (auto split: sum.splits option.splits if_splits prod.splits)
qed

lemma get_voice_path_result:
  "fst (snd (get_voice_path E voice fs)) = fst (snd (get_voice_path_body E voice fs))"
  by (simp add: get_voice_path_def split: prod.splits sum.splits)

lemma get_voice_path_files:
  "snd (snd (get_voice_path E voice fs)) = snd (snd (get_voice_path_body E voice fs))"
  by (simp add: get_voice_path_def split: prod.splits sum.splits)

lemma combined_not_invalid:
  assumes "CHR ''+'' \<in> set voice" and "\<not> length (voice_names voice) < 2"
  shows "fst (snd (get_voice_path_body E voice fs))
           \<noteq> Inl (RuntimeError (''Invalid combined voice name: '' @ voice))"
proof -
  obtain lg res where lv: "load_voices E fs (voice_names voice) = (lg, res)"
    by (cases "load_voices E fs (voice_names voice)")
  show ?thesis
  proof (cases res)
    case (Inl e)
    with lv have "snd (load_voices E fs (voice_names voice)) = Inl e" by simp
    from load_voices_error[OF this]
    have "e \<noteq> RuntimeError (''Invalid combined voice name: '' @ voice)" by auto
    with assms lv Inl show ?thesis
      by (simp add: get_voice_path_body_def Let_def)
  next
    case (Inr ts)
    with assms lv show ?thesis
      by (simp add: get_voice_path_body_def Let_def raised_by_not_RuntimeError
          split: sum.splits option.splits)
  qed
qed

lemma voice_names_examples:
  "voice_names ''a+'' = [''a'']"
  "voice_names ''+b'' = [''b'']"
  "voice_names ''+'' = []"
  "voice_names ''af + bm'' = [''af'', ''bm'']"
  "voice_names ''a+b'' = [''a'', ''b'']"
  "voice_names ''b+a'' = [''b'', ''a'']"
  by (simp_all add: voice_names_def strip_def is_space_def)

lemma split_on_nonempty: "split_on c s \<noteq> []"
  by (induction s) (auto split: list.splits)

lemma split_on_length: "length (split_on c s) = Suc (count_list s c)"
  using split_on_nonempty[of c]
  by (induction s) (auto split: list.splits)

lemma split_on_no_separator: "p \<in> set (split_on c s) \<Longrightarrow> c \<notin> set p"
proof (induction s arbitrary: p)
  case Nil
  then show ?case by simp
next
  case (Cons x xs)
  then show ?case
    by (cases "split_on c xs") (auto split: if_splits)
qed

lemma strip_empty_iff: "(strip s = []) = (\<forall>ch\<in>set s. is_space ch)"
proof
  assume "strip s = []"
  then have all: "\<forall>x\<in>set (dropWhile is_space s). is_space x"
    by (simp add: strip_def)
  have "dropWhile is_space s = []"
  proof (rule ccontr)
    assume ne: "dropWhile is_space s \<noteq> []"
    then have "\<not> is_space (hd (dropWhile is_space s))" by (rule hd_dropWhile)
    moreover from ne have "hd (dropWhile is_space s) \<in> set (dropWhile is_space s)" by simp
    ultimately show False using all by blast
  qed
  then show "\<forall>ch\<in>set s. is_space ch" by simp
next
  assume "\<forall>ch\<in>set s. is_space ch"
  then show "strip s = []" by (auto simp: strip_def dest: set_dropWhileD)
qed

lemma voice_names_count:
  "length (voice_names voice)
     = length (filter (\<lambda>p. \<exists>ch\<in>set p. \<not> is_space ch) (split_on CHR ''+'' voice))"
proof -
  have "filter (\<lambda>v. v \<noteq> []) (map strip xs)
          = map strip (filter (\<lambda>p. \<exists>ch\<in>set p. \<not> is_space ch) xs)" for xs
    by (induction xs) (auto simp: strip_empty_iff)
  then show ?thesis by (simp add: voice_names_def)
qed

lemma combined_has_plus:
  assumes "2 \<le> length (voice_names voice)"
  shows "CHR ''+'' \<in> set voice"
proof (rule ccontr)
  assume "CHR ''+'' \<notin> set voice"
  then have "count_list voice CHR ''+'' = 0" by (simp add: count_list_0_iff)
  then have "length (split_on CHR ''+'' voice) = 1" by (simp add: split_on_length)
  moreover have "length (voice_names voice) \<le> length (split_on CHR ''+'' voice)"
    unfolding voice_names_def
    using length_filter_le[of "\<lambda>v. v \<noteq> []" "map strip (split_on CHR ''+'' voice)"] by simp
  ultimately show False using assms by simp
qed

lemma load_voices_loaded:
  "\<forall>v\<in>set vs. voice_file E fs v = Some (T v) \<Longrightarrow> snd (load_voices E fs vs) = Inr (map T vs)"
proof (induction vs)
  case Nil
  show ?case by simp
next
  case (Cons v vs)
  then have ih: "snd (load_voices E fs vs) = Inr (map T vs)" by simp
  from Cons.prems have v: "voice_file E fs v = Some (T v)" by simp
  obtain lg where lv: "load_voices E fs vs = (lg, Inr (map T vs))"
    using ih by (cases "load_voices E fs vs") simp
  from v show ?case
    by (auto simp: voice_file_def lv split: sum.splits option.splits if_splits)
qed

lemma combined_voice_persisted:
  assumes "2 \<le> length (voice_names voice)"
    and "\<forall>v\<in>set (voice_names voice). voice_file E fs v = Some (T v)"
    and "torch_mean_stack E (map T (voice_names voice)) = Inr combined"
    and "torch_save E (path_join (gettempdir E) (voice @ ''.pt'')) = None"
  shows "fst (snd (get_voice_path_body E voice fs))
           = Inr (voice, path_join (gettempdir E) (voice @ ''.pt''))"
    and "snd (snd (get_voice_path_body E voice fs))
           = fs(path_join (gettempdir E) (voice @ ''.pt'') \<mapsto> combined)"
proof -
  obtain lg where lv: "load_voices E fs (voice_names voice) = (lg, Inr (map T (voice_names voice)))"
    using load_voices_loaded[OF assms(2)] by (cases "load_voices E fs (voice_names voice)") simp
  from assms(1) have short: "\<not> length (voice_names voice) < 2" by simp
  show "fst (snd (get_voice_path_body E voice fs))
           = Inr (voice, path_join (gettempdir E) (voice @ ''.pt''))"
    using combined_has_plus[OF assms(1)] short lv assms(3,4)
    by (simp add: get_voice_path_body_def Let_def)
  show "snd (snd (get_voice_path_body E voice fs))
           = fs(path_join (gettempdir E) (voice @ ''.pt'') \<mapsto> combined)"
    using combined_has_plus[OF assms(1)] short lv assms(3,4)
    by (simp add: get_voice_path_body_def Let_def)
qed

lemma elementwise_mean_permuted:
  assumes "mset ts' = mset ts" and "ts \<noteq> []" and "\<forall>t\<in>set ts. length t = d"
  shows "elementwise_mean ts' = elementwise_mean ts"
proof -
  from assms(1) have len: "length ts' = length ts" by (rule mset_eq_length)
  from assms(1) have set: "set ts' = set ts" by (rule mset_eq_setD)
  from assms(2) len have ne: "ts' \<noteq> []" by auto
  from ne set assms(3) have "length (hd ts') = d" by (metis list.set_sel(1))
  moreover from assms(2,3) have "length (hd ts) = d" by simp
  moreover have "sum_list (map f ts') = sum_list (map f ts)" for f :: "rat list \<Rightarrow> rat"
  proof -
    have "mset (map f ts') = mset (map f ts)" using assms(1) by (metis mset_map)
    then show ?thesis by (metis sum_mset_sum_list)
  qed
  ultimately show ?thesis by (simp add: elementwise_mean_def len)
qed

lemma demo_voices_simps:
  "vm_get_voice_path demo_voices v =
     Inr (if v = ''a'' then Some ''/voices/a.pt''
          else if v = ''b'' then Some ''/voices/b.pt'' else None)"
  "torch_mean_stack demo_voices ts = Inr (elementwise_mean ts)"
  "torch_save demo_voices p = None"
  "gettempdir demo_voices = ''/tmp''"
  by (simp_all add: demo_voices_def)

lemma demo_voice_files:
  "voice_file demo_voices demo_files ''a'' = Some [1, 3]"
  "voice_file demo_voices demo_files ''b'' = Some [3, 4]"
  by (simp_all add: voice_file_def demo_voices_simps demo_files_def)

lemma demo_mean: "elementwise_mean [[1, 3], [3, 4]] = [2, 7 / 2]"
  "elementwise_mean [[3, 4], [1, 3]] = [2, 7 / 2]"
  by (simp_all add: elementwise_mean_def upt_rec)

subsection \<open>The chunk synthesizer\<close>

lemma kokoro_loop_Cons:
  "fst (kokoro_loop E fmt f l (a # items) n)
     = fst (emit_audio E fmt f l a n)
       @ (if fst (snd (emit_audio E fmt f l a n)) = None
          then fst (kokoro_loop E fmt f l items (snd (snd (emit_audio E fmt f l a n))))
          else [])"
  "fst (snd (kokoro_loop E fmt f l (a # items) n))
     = (if fst (snd (emit_audio E fmt f l a n)) = None
        then fst (snd (kokoro_loop E fmt f l items (snd (snd (emit_audio E fmt f l a n)))))
        else fst (snd (emit_audio E fmt f l a n)))"
  "snd (snd (kokoro_loop E fmt f l (a # items) n))
     = (if fst (snd (emit_audio E fmt f l a n)) = None
        then snd (snd (kokoro_loop E fmt f l items (snd (snd (emit_audio E fmt f l a n)))))
        else snd (snd (emit_audio E fmt f l a n)))"
  by (auto split: prod.splits option.splits)

lemma kokoro_loop_encoded:
  "truthy fmt \<Longrightarrow> c \<in> set (yields (fst (kokoro_loop E fmt f l items n))) \<Longrightarrow> \<exists>b. c = EncodedChunk f l b"
proof (induction items arbitrary: n)
  case Nil
  then show ?case by simp
next
  case (Cons a items)
  from Cons.prems(2)
  have "c \<in> set (yields (fst (emit_audio E fmt f l a n)))
      \<or> c \<in> set (yields (fst (kokoro_loop E fmt f l items (snd (snd (emit_audio E fmt f l a n))))))"
    unfolding kokoro_loop_Cons yields_append by (auto split: if_splits)
  then show ?case
  proof
    assume "c \<in> set (yields (fst (emit_audio E fmt f l a n)))"
    then show ?thesis by (rule emit_audio_encoded[OF Cons.prems(1)])
  next
    assume "c \<in> set (yields (fst (kokoro_loop E fmt f l items (snd (snd (emit_audio E fmt f l a n))))))"
    then show ?thesis by (rule Cons.IH[OF Cons.prems(1)])
  qed
qed

lemma kokoro_loop_raised:
  "fst (snd (kokoro_loop E fmt f l items n)) = Some e \<Longrightarrow> \<not> is_Exception e"
proof (induction items arbitrary: n)
  case Nil
  then show ?case by simp
next
  case (Cons a items)
  show ?case
  proof (cases "fst (snd (emit_audio E fmt f l a n)) = None")
    case True
    with Cons.prems have "fst (snd (kokoro_loop E fmt f l items (snd (snd (emit_audio E fmt f l a n)))))
        = Some e" unfolding kokoro_loop_Cons by simp
    then show ?thesis by (rule Cons.IH)
  next
    case False
    with Cons.prems have "fst (snd (emit_audio E fmt f l a n)) = Some e"
      unfolding kokoro_loop_Cons by simp
    then show ?thesis by (rule emit_audio_raised)
  qed
qed



lemma process_chunk_body_final:
  "process_chunk_body E t toks vn vp sp fmt f True n =
     (if \<not> truthy fmt then ([Yield (RawChunk (Arr1 []))], None, n)
      else (case convert_audio E (Some (Arr1 [0])) 24000 (the fmt) False n True of
              (Inr result, n') \<Rightarrow> ([Yield (EncodedChunk False True result)], None, n')
            | (Inl flt, n') \<Rightarrow> ([], Some (raised_by flt), n')))"
  by (simp add: process_chunk_body_def)

lemma process_chunk_body_cases:
  obtains (empty) "toks = []" "t = []"
      "process_chunk_body E t toks vn vp sp fmt f False n = ([], None, n)"
    | (no_backend) flt where "mm_get_backend E = Inl flt"
      "process_chunk_body E t toks vn vp sp fmt f False n = ([], Some (raised_by flt), n)"
    | (kokoro) items ended where "\<not> (toks = [] \<and> t = [])" "mm_get_backend E = Inr KokoroV1"
      "mm_generate_kokoro E t (vn, vp) sp = (items, ended)"
      "process_chunk_body E t toks vn vp sp fmt f False n =
         (fst (kokoro_loop E fmt f False items n),
          (if fst (snd (kokoro_loop E fmt f False items n)) = None
           then map_option raised_by ended
           else fst (snd (kokoro_loop E fmt f False items n))),
          snd (snd (kokoro_loop E fmt f False items n)))"
    | (no_voice) d flt where "mm_get_backend E = Inr (LegacyBackend d)"
      "vm_load_voice E vn d = Inl flt"
      "process_chunk_body E t toks vn vp sp fmt f False n = ([], Some (raised_by flt), n)"
    | (no_audio) d vt flt where "mm_get_backend E = Inr (LegacyBackend d)"
      "vm_load_voice E vn d = Inr vt" "mm_generate_legacy E toks vt sp = Inl flt"
      "process_chunk_body E t toks vn vp sp fmt f False n = ([], Some (raised_by flt), n)"
    | (none_audio) d vt where "mm_get_backend E = Inr (LegacyBackend d)"
      "vm_load_voice E vn d = Inr vt" "mm_generate_legacy E toks vt sp = Inr None"
      "process_chunk_body E t toks vn vp sp fmt f False n
         = ([Log ERROR ''Model generated None for audio chunk''], None, n)"
    | (unsized) d vt x where "mm_get_backend E = Inr (LegacyBackend d)"
      "vm_load_voice E vn d = Inr vt" "mm_generate_legacy E toks vt sp = Inr (Some (Arr0 x))"
      "process_chunk_body E t toks vn vp sp fmt f False n
         = ([], Some (TypeError ''len() of unsized object''), n)"
    | (empty_audio) d vt where "mm_get_backend E = Inr (LegacyBackend d)"
      "vm_load_voice E vn d = Inr vt" "mm_generate_legacy E toks vt sp = Inr (Some (Arr1 []))"
      "process_chunk_body E t toks vn vp sp fmt f False n
         = ([Log ERROR ''Model generated empty audio chunk''], None, n)"
    | (audio) d vt xs where "\<not> (toks = [] \<and> t = [])" "mm_get_backend E = Inr (LegacyBackend d)"
      "vm_load_voice E vn d = Inr vt" "mm_generate_legacy E toks vt sp = Inr (Some (Arr1 xs))"
      "xs \<noteq> []"
      "process_chunk_body E t toks vn vp sp fmt f False n
         = emit_audio E fmt f False (Some (Arr1 xs)) n"
proof (cases "toks = [] \<and> t = []")
  case True
  then show ?thesis by (intro empty) (simp_all add: process_chunk_body_def)
next
  case ne: False
  show ?thesis
  proof (cases "mm_get_backend E")
    case (Inl flt)
    with ne show ?thesis by (intro no_backend[of flt]) (simp_all add: process_chunk_body_def)
  next
    case (Inr b)
    show ?thesis
    proof (cases b)
      case KokoroV1
      obtain items ended where g: "mm_generate_kokoro E t (vn, vp) sp = (items, ended)"
        by (cases "mm_generate_kokoro E t (vn, vp) sp")
      with ne Inr KokoroV1 show ?thesis
        by (intro kokoro[of items ended])
          (auto simp: process_chunk_body_def split: prod.splits option.splits)
    next
      case (LegacyBackend d)
      show ?thesis
      proof (cases "vm_load_voice E vn d")
        case (Inl flt)
        with ne Inr LegacyBackend show ?thesis
          by (intro no_voice[of d flt]) (simp_all add: process_chunk_body_def)
      next
        case lv: (Inr vt)
        show ?thesis
        proof (cases "mm_generate_legacy E toks vt sp")
          case (Inl flt)
          with ne Inr LegacyBackend lv show ?thesis
            by (intro no_audio[of d vt flt]) (simp_all add: process_chunk_body_def)
        next
          case res: (Inr r)
          show ?thesis
          proof (cases r)
            case None
            with ne Inr LegacyBackend lv res show ?thesis
              by (intro none_audio[of d vt]) (simp_all add: process_chunk_body_def)
          next
            case (Some arr)
            show ?thesis
            proof (cases arr)
              case (Arr0 x)
              with ne Inr LegacyBackend lv res Some show ?thesis
                by (intro unsized[of d vt x]) (simp_all add: process_chunk_body_def)
            next
              case (Arr1 xs)
              show ?thesis
              proof (cases "xs = []")
                case True
                with ne Inr LegacyBackend lv res Some Arr1 show ?thesis
                  by (intro empty_audio[of d vt]) (simp_all add: process_chunk_body_def)
              next
                case False
                with ne Inr LegacyBackend lv res Some Arr1 show ?thesis
                  by (intro audio[of d vt xs]) (auto simp: process_chunk_body_def)
              qed
            qed
          qed
        qed
      qed
    qed
  qed
qed

lemma process_chunk_body_encoded:
  assumes "truthy fmt"
    and "c \<in> set (yields (fst (process_chunk_body E t toks vn vp sp fmt f l n)))"
  shows "\<exists>b. c = EncodedChunk (f \<and> \<not> l) l b"
proof (cases l)
  case True
  with assms show ?thesis
    by (auto simp: process_chunk_body_final split: prod.splits sum.splits)
next
  case False
  have "\<exists>b. c = EncodedChunk f False b"
  proof (cases rule: process_chunk_body_cases[of toks t E vn vp sp fmt f n])
    case (kokoro items ended)
    with assms(2) False have "c \<in> set (yields (fst (kokoro_loop E fmt f False items n)))"
      by simp
    then show ?thesis by (rule kokoro_loop_encoded[OF assms(1)])
  next
    case (audio d vt xs)
    with assms(2) False
    have "c \<in> set (yields (fst (emit_audio E fmt f False (Some (Arr1 xs)) n)))" by simp
    then show ?thesis by (rule emit_audio_encoded[OF assms(1)])
  qed (use assms(2) False in simp_all)
  with False show ?thesis by simp
qed

lemma process_chunk_body_legacy_length:
  assumes "mm_get_backend E = Inr (LegacyBackend d)"
  shows "length (yields (fst (process_chunk_body E t toks vn vp sp fmt f l n))) \<le> 1"
proof (cases l)
  case True
  then show ?thesis by (auto simp: process_chunk_body_final split: prod.splits sum.splits)
next
  case False
  show ?thesis
  proof (cases rule: process_chunk_body_cases[of toks t E vn vp sp fmt f n])
    case (kokoro items ended)
    with assms show ?thesis by simp
  next
    case (audio d vt xs)
    with False emit_audio_length[of E fmt f False "Some (Arr1 xs)" n] show ?thesis by simp
  qed (use False in simp_all)
qed


lemma process_chunk_yields:
  "yields (fst (process_chunk E t toks vn vp sp fmt f l n))
     = (if semaphore_acquire E = None
        then yields (fst (process_chunk_body E t toks vn vp sp fmt f l n)) else [])"
  by (simp add: process_chunk_def yields_append split: prod.splits option.splits)

lemma process_chunk_encoded:
  assumes "truthy fmt"
    and "c \<in> set (yields (fst (process_chunk E t toks vn vp sp fmt f l n)))"
  shows "\<exists>b. c = EncodedChunk (f \<and> \<not> l) l b"
proof (cases "semaphore_acquire E = None")
  case True
  with assms(2) have "c \<in> set (yields (fst (process_chunk_body E t toks vn vp sp fmt f l n)))"
    by (simp add: process_chunk_yields)
  then show ?thesis by (rule process_chunk_body_encoded[OF assms(1)])
next
  case False
  with assms(2) show ?thesis by (simp add: process_chunk_yields)
qed

lemma process_chunk_legacy_length:
  assumes "mm_get_backend E = Inr (LegacyBackend d)"
  shows "length (yields (fst (process_chunk E t toks vn vp sp fmt f l n))) \<le> 1"
  using process_chunk_body_legacy_length[OF assms, of t toks vn vp sp fmt f l n]
  by (simp add: process_chunk_yields)





subsection \<open>The deployments and their faults\<close>


lemma demo_noclose_simps:
  "semaphore_acquire demo_noclose = None"
  "mm_get_backend demo_noclose = Inr (LegacyBackend ''cpu'')"
  "smart_split demo_noclose t =
     (if t = [] then ([], None)
      else (map (\<lambda>w. (w, [int (length w)])) (split_on CHR '' '' t), None))"
  "mm_generate_legacy demo_noclose tokens vt s =
     (if tokens = [2] then Inl (Failure ''model failure'')
      else Inr (Some (Arr1 (map nat tokens))))"
  "convert_audio demo_noclose a rate fmt first n final =
     (if final then Inl (Failure ''cannot close the stream'')
      else Inr ((if first then [82, 73] else []) @ [of_nat n]), n + 1)"
  "AudioNormalizer demo_noclose = 0"
  "vm_get_voice_path demo_noclose v = Inr (if v = ''af'' then Some ''/voices/af.pt'' else None)"
  "vm_load_voice demo_noclose v d = Inr 7"
  by (simp_all add: demo_noclose_def demo_legacy_def)



subsection \<open>The loop over the segments and the stream\<close>

lemma segments_loop_Cons:
  "yields (loop_events (segments_loop E vn vp sp fmt ((t, toks) # rest) i n))
     = filter (\<lambda>c. c \<noteq> NoneChunk) (yields (fst (process_chunk E t toks vn vp sp fmt (i = 0) False n)))
       @ (if escapes (fst (snd (process_chunk E t toks vn vp sp fmt (i = 0) False n))) then []
          else yields (loop_events (segments_loop E vn vp sp fmt rest
                 (i + length (filter (\<lambda>c. c \<noteq> NoneChunk)
                    (yields (fst (process_chunk E t toks vn vp sp fmt (i = 0) False n)))))
                 (snd (snd (process_chunk E t toks vn vp sp fmt (i = 0) False n))))))"
  "loop_index (segments_loop E vn vp sp fmt ((t, toks) # rest) i n)
     = (if escapes (fst (snd (process_chunk E t toks vn vp sp fmt (i = 0) False n)))
        then i + length (filter (\<lambda>c. c \<noteq> NoneChunk)
                    (yields (fst (process_chunk E t toks vn vp sp fmt (i = 0) False n))))
        else loop_index (segments_loop E vn vp sp fmt rest
                 (i + length (filter (\<lambda>c. c \<noteq> NoneChunk)
                    (yields (fst (process_chunk E t toks vn vp sp fmt (i = 0) False n)))))
                 (snd (snd (process_chunk E t toks vn vp sp fmt (i = 0) False n)))))"
  "loop_norm (segments_loop E vn vp sp fmt ((t, toks) # rest) i n)
     = (if escapes (fst (snd (process_chunk E t toks vn vp sp fmt (i = 0) False n)))
        then snd (snd (process_chunk E t toks vn vp sp fmt (i = 0) False n))
        else loop_norm (segments_loop E vn vp sp fmt rest
                 (i + length (filter (\<lambda>c. c \<noteq> NoneChunk)
                    (yields (fst (process_chunk E t toks vn vp sp fmt (i = 0) False n)))))
                 (snd (snd (process_chunk E t toks vn vp sp fmt (i = 0) False n)))))"
  "loop_calls (segments_loop E vn vp sp fmt ((t, toks) # rest) i n)
     = \<lparr>call_text = t, call_tokens = toks, call_first = (i = 0), call_last = False\<rparr>
       # (if escapes (fst (snd (process_chunk E t toks vn vp sp fmt (i = 0) False n))) then []
          else loop_calls (segments_loop E vn vp sp fmt rest
                 (i + length (filter (\<lambda>c. c \<noteq> NoneChunk)
                    (yields (fst (process_chunk E t toks vn vp sp fmt (i = 0) False n)))))
                 (snd (snd (process_chunk E t toks vn vp sp fmt (i = 0) False n)))))"
  "loop_raised (segments_loop E vn vp sp fmt ((t, toks) # rest) i n)
     = (if escapes (fst (snd (process_chunk E t toks vn vp sp fmt (i = 0) False n)))
        then fst (snd (process_chunk E t toks vn vp sp fmt (i = 0) False n))
        else loop_raised (segments_loop E vn vp sp fmt rest
                 (i + length (filter (\<lambda>c. c \<noteq> NoneChunk)
                    (yields (fst (process_chunk E t toks vn vp sp fmt (i = 0) False n)))))
                 (snd (snd (process_chunk E t toks vn vp sp fmt (i = 0) False n)))))"
  using relay_count[of t "fst (process_chunk E t toks vn vp sp fmt (i = 0) False n)" i]
  by (simp_all add: case_prod_beta Let_def yields_append relay_yields split: option.splits)

lemma segments_loop_count:
  "loop_index (segments_loop E vn vp sp fmt segs i n)
     = i + length (yields (loop_events (segments_loop E vn vp sp fmt segs i n)))"
proof (induction segs arbitrary: i n)
  case Nil
  show ?case by simp
next
  case (Cons seg rest)
  obtain t toks where seg: "seg = (t, toks)" by (cases seg)
  show ?case
    unfolding seg segments_loop_Cons
    by (simp add: Cons.IH)
qed



lemma segments_loop_encoded:
  "truthy fmt \<Longrightarrow> c \<in> set (yields (loop_events (segments_loop E vn vp sp fmt segs i n)))
    \<Longrightarrow> \<exists>f b. c = EncodedChunk f False b \<and> (f \<longrightarrow> i = 0)"
proof (induction segs arbitrary: i n)
  case Nil
  then show ?case by simp
next
  case (Cons seg rest)
  obtain t toks where seg: "seg = (t, toks)" by (cases seg)
  let ?P = "process_chunk E t toks vn vp sp fmt (i = 0) False n"
  let ?k = "i + length (filter (\<lambda>c. c \<noteq> NoneChunk) (yields (fst ?P)))"
  from Cons.prems(2)
  have "c \<in> set (yields (fst ?P))
      \<or> c \<in> set (yields (loop_events (segments_loop E vn vp sp fmt rest ?k (snd (snd ?P)))))"
    unfolding seg segments_loop_Cons by (auto split: if_splits)
  then show ?case
  proof
    assume "c \<in> set (yields (fst ?P))"
    from process_chunk_encoded[OF Cons.prems(1) this]
    show ?thesis by auto
  next
    assume "c \<in> set (yields (loop_events (segments_loop E vn vp sp fmt rest ?k (snd (snd ?P)))))"
    from Cons.IH[OF Cons.prems(1) this]
    show ?thesis by auto
  qed
qed

lemma stream_backend_failed:
  assumes "mm_get_backend E = Inl f"
  shows "generate_audio_stream E text voice sp fmt fs =
     \<lparr>trace = stream_handler (raised_by f), raised = Some (raised_by f), chunk_index = 0,
      calls = [], files_after = fs, exhausted = None\<rparr>"
  by (simp add: generate_audio_stream_def assms)

lemma stream_voice_failed:
  assumes "mm_get_backend E = Inr b" and "get_voice_path E voice fs = (lg, Inl e, fs')"
  shows "generate_audio_stream E text voice sp fmt fs =
     \<lparr>trace = log_events lg @ stream_handler e, raised = Some e, chunk_index = 0, calls = [],
      files_after = fs', exhausted = None\<rparr>"
  by (simp add: generate_audio_stream_def assms)

lemma stream_started:
  assumes "mm_get_backend E = Inr b"
    and "get_voice_path E voice fs = (lg, Inr (vn, vp), fs')"
    and "smart_split E text = (segs, ended)"
  shows "chunk_index (generate_audio_stream E text voice sp fmt fs)
           = loop_index (segments_loop E vn vp sp fmt segs 0 (AudioNormalizer E))"
    and "exhausted (generate_audio_stream E text voice sp fmt fs)
           = (if loop_raised (segments_loop E vn vp sp fmt segs 0 (AudioNormalizer E)) = None
                 \<and> ended = None
              then Some (loop_norm (segments_loop E vn vp sp fmt segs 0 (AudioNormalizer E)))
              else None)"
    and "calls (generate_audio_stream E text voice sp fmt fs)
           = loop_calls (segments_loop E vn vp sp fmt segs 0 (AudioNormalizer E))
             @ (if loop_raised (segments_loop E vn vp sp fmt segs 0 (AudioNormalizer E)) = None
                   \<and> ended = None
                   \<and> 0 < loop_index (segments_loop E vn vp sp fmt segs 0 (AudioNormalizer E))
                then [final_call] else [])"
    and "yields (trace (generate_audio_stream E text voice sp fmt fs))
           = yields (loop_events (segments_loop E vn vp sp fmt segs 0 (AudioNormalizer E)))
             @ (if loop_raised (segments_loop E vn vp sp fmt segs 0 (AudioNormalizer E)) = None
                   \<and> ended = None
                   \<and> 0 < loop_index (segments_loop E vn vp sp fmt segs 0 (AudioNormalizer E))
                then filter (\<lambda>c. c \<noteq> NoneChunk)
                       (yields (fst (process_chunk E [] [] vn vp sp fmt False True
                          (loop_norm (segments_loop E vn vp sp fmt segs 0 (AudioNormalizer E))))))
                else [])"
    and "raised (generate_audio_stream E text voice sp fmt fs)
           = (case loop_raised (segments_loop E vn vp sp fmt segs 0 (AudioNormalizer E)) of
                Some e \<Rightarrow> Some e
              | None \<Rightarrow>
                  (case ended of
                     Some f \<Rightarrow> Some (raised_by f)
                   | None \<Rightarrow>
                       (if 0 < loop_index (segments_loop E vn vp sp fmt segs 0 (AudioNormalizer E))
                           \<and> escapes (fst (snd (process_chunk E [] [] vn vp sp fmt False True
                                 (loop_norm (segments_loop E vn vp sp fmt segs 0
                                    (AudioNormalizer E))))))
                        then fst (snd (process_chunk E [] [] vn vp sp fmt False True
                                 (loop_norm (segments_loop E vn vp sp fmt segs 0
                                    (AudioNormalizer E)))))
                        else None)))"
    and "files_after (generate_audio_stream E text voice sp fmt fs) = fs'"
  by (simp_all add: generate_audio_stream_def assms case_prod_beta Let_def yields_append
        yields_log_events yields_stream_handler relay_final_yields
        split: option.splits)

subsection \<open>Streams with an output format, and the text-native deployment\<close>

lemma stream_encoded:
  assumes "truthy fmt"
    and "c \<in> set (yields (trace (generate_audio_stream E text voice sp fmt fs)))"
  shows "is_encoded c"
proof (cases "mm_get_backend E")
  case (Inl f)
  with assms(2) show ?thesis
    by (simp add: stream_backend_failed[OF Inl] yields_stream_handler)
next
  case (Inr b)
  obtain lg res fs' where gv: "get_voice_path E voice fs = (lg, res, fs')"
    by (cases "get_voice_path E voice fs") auto
  show ?thesis
  proof (cases res)
    case (Inl e)
    with assms(2) gv show ?thesis
      by (simp add: stream_voice_failed[OF Inr] yields_append yields_log_events
          yields_stream_handler)
  next
    case res: (Inr vv)
    obtain vn vp where vv: "vv = (vn, vp)" by (cases vv)
    obtain segs ended where sp: "smart_split E text = (segs, ended)"
      by (cases "smart_split E text")
    note started = stream_started[OF Inr gv[unfolded res vv] sp]
    let ?r = "segments_loop E vn vp sp fmt segs 0 (AudioNormalizer E)"
    from assms(2)
    have "c \<in> set (yields (loop_events ?r))
        \<or> c \<in> set (yields (fst (process_chunk E [] [] vn vp sp fmt False True (loop_norm ?r))))"
      unfolding started(4) by (auto split: if_splits)
    then show ?thesis
    proof
      assume "c \<in> set (yields (loop_events ?r))"
      from segments_loop_encoded[OF assms(1) this] show ?thesis by auto
    next
      assume "c \<in> set (yields (fst (process_chunk E [] [] vn vp sp fmt False True (loop_norm ?r))))"
      from process_chunk_encoded[OF assms(1) this] show ?thesis by auto
    qed
  qed
qed

lemma valid_chunks_encoded:
  "cs \<noteq> [] \<Longrightarrow> \<forall>c\<in>set cs. is_encoded c \<Longrightarrow>
     valid_chunks cs
       = Inl (AttributeError (quoted ''bytes'' @ '' object has no attribute '' @ quoted ''ndim''))"
  by (cases cs; cases "hd cs") auto

lemma collected_encoded: "c \<in> set (collected E text voice speed fs) \<Longrightarrow> is_encoded c"
  unfolding collected_def using stream_encoded[of "Some ''wav''" c E "text" voice speed fs]
  by simp

lemma stream_no_segments:
  assumes "smart_split E text = ([], None)"
  shows "yields (trace (generate_audio_stream E text voice sp fmt fs)) = []"
    and "calls (generate_audio_stream E text voice sp fmt fs) = []"
    and "raised (generate_audio_stream E text voice sp fmt fs)
           = (case mm_get_backend E of
                Inl f \<Rightarrow> Some (raised_by f)
              | Inr b \<Rightarrow> (case fst (snd (get_voice_path E voice fs)) of
                            Inl e \<Rightarrow> Some e
                          | Inr r \<Rightarrow> None))"
proof -
  let ?r = "generate_audio_stream E text voice sp fmt fs"
  have "yields (trace ?r) = [] \<and> calls ?r = []
      \<and> raised ?r = (case mm_get_backend E of
                Inl f \<Rightarrow> Some (raised_by f)
              | Inr b \<Rightarrow> (case fst (snd (get_voice_path E voice fs)) of
                            Inl e \<Rightarrow> Some e
                          | Inr r \<Rightarrow> None))"
  proof (cases "mm_get_backend E")
    case (Inl f)
    show ?thesis by (simp add: stream_backend_failed[OF Inl] Inl yields_stream_handler)
  next
    case (Inr b)
    obtain lg res fs' where gv: "get_voice_path E voice fs = (lg, res, fs')"
      by (cases "get_voice_path E voice fs") auto
    show ?thesis
    proof (cases res)
      case (Inl e)
      show ?thesis
        using gv by (simp add: stream_voice_failed[OF Inr] Inl Inr yields_append
            yields_log_events yields_stream_handler)
    next
      case res: (Inr vv)
      obtain vn vp where vv: "vv = (vn, vp)" by (cases vv)
      note started = stream_started[OF Inr gv[unfolded res vv] assms]
      show ?thesis
        unfolding started by (simp add: Inr gv res)
    qed
  qed
  then show "yields (trace ?r) = []" and "calls ?r = []"
    and "raised ?r = (case mm_get_backend E of
                Inl f \<Rightarrow> Some (raised_by f)
              | Inr b \<Rightarrow> (case fst (snd (get_voice_path E voice fs)) of
                            Inl e \<Rightarrow> Some e
                          | Inr r \<Rightarrow> None))"
    by simp_all
qed

lemma demo_kokoro_simps:
  "semaphore_acquire demo_kokoro = None"
  "mm_get_backend demo_kokoro = Inr KokoroV1"
  "smart_split demo_kokoro t = (if t = [] then ([], None) else ([(t, [])], None))"
  "mm_generate_kokoro demo_kokoro t v s = (map (\<lambda>c. Some (Arr1 [of_char c])) t, None)"
  "convert_audio demo_kokoro a rate fmt first n final =
     (if final then Inl (Failure ''cannot close the stream'')
      else Inr ((if first then [82, 73] else []) @ [of_nat n]), n + 1)"
  "AudioNormalizer demo_kokoro = 0"
  "vm_get_voice_path demo_kokoro name = Inr (if name = ''af'' then Some ''/voices/af.pt'' else None)"
  by (simp_all add: demo_kokoro_def)

lemma demo_kokoro_voice:
  "get_voice_path demo_kokoro ''af'' Map.empty
     = ([(DEBUG, ''Using single voice path: /voices/af.pt'')], Inr (''af'', ''/voices/af.pt''), Map.empty)"
  by (simp add: get_voice_path_def get_voice_path_body_def demo_kokoro_simps)

lemma demo_kokoro_stream:
  "generate_audio_stream demo_kokoro ''hi'' ''af'' 1 (Some ''wav'') Map.empty =
     \<lparr>trace =
        [Log DEBUG ''Using single voice path: /voices/af.pt'',
         Log DEBUG ''Using voice path: /voices/af.pt'',
         Yield (EncodedChunk True False [82, 73, 0]),
         Yield (EncodedChunk True False [82, 73, 1]),
         Log ERROR ''Failed to process tokens: cannot close the stream''],
      raised = None, chunk_index = 2,
      calls =
        [\<lparr>call_text = ''hi'', call_tokens = [], call_first = True, call_last = False\<rparr>,
         \<lparr>call_text = [], call_tokens = [], call_first = False, call_last = True\<rparr>],
      files_after = Map.empty, exhausted = Some 2\<rparr>"
  by (simp add: generate_audio_stream_def demo_kokoro_voice process_chunk_def
        process_chunk_body_def emit_audio_def log_events_def final_call_def demo_kokoro_simps
        quoted_def)

lemma demo_kokoro_stream_one:
  "generate_audio_stream demo_kokoro ''h'' ''af'' 1 (Some ''wav'') Map.empty =
     \<lparr>trace =
        [Log DEBUG ''Using single voice path: /voices/af.pt'',
         Log DEBUG ''Using voice path: /voices/af.pt'',
         Yield (EncodedChunk True False [82, 73, 0]),
         Log ERROR ''Failed to process tokens: cannot close the stream''],
      raised = None, chunk_index = 1,
      calls =
        [\<lparr>call_text = ''h'', call_tokens = [], call_first = True, call_last = False\<rparr>,
         \<lparr>call_text = [], call_tokens = [], call_first = False, call_last = True\<rparr>],
      files_after = Map.empty, exhausted = Some 1\<rparr>"
  by (simp add: generate_audio_stream_def demo_kokoro_voice process_chunk_def
        process_chunk_body_def emit_audio_def log_events_def final_call_def demo_kokoro_simps
        quoted_def)

lemma demo_kokoro_audio_one:
  "snd (generate_audio demo_kokoro ''h'' ''af'' 1 Map.empty) = Inr (EncodedChunk True False [82, 73, 0])"
  by (simp add: generate_audio_def collected_def demo_kokoro_stream_one)

subsection \<open>The stream against the spec's view\<close>










lemma final_unit:
  assumes "semaphore_acquire E = None"
  shows "filter (\<lambda>c. c \<noteq> NoneChunk)
           (yields (fst (process_chunk E [] [] vn vp sp fmt False True n)))
         = spec_final E fmt n"
  using assms
  by (auto simp: process_chunk_yields process_chunk_body_final spec_final_def
      split: prod.splits sum.splits)

subsection \<open>The deployment that cannot close the stream, and the spec's view evaluated\<close>

lemma demo_noclose_voice:
  "get_voice_path demo_noclose ''af'' Map.empty
     = ([(DEBUG, ''Using single voice path: /voices/af.pt'')], Inr (''af'', ''/voices/af.pt''), Map.empty)"
  by (simp add: get_voice_path_def get_voice_path_body_def demo_noclose_simps)



lemma demo_noclose_stream_one:
  "generate_audio_stream demo_noclose ''a'' ''af'' 1 (Some ''wav'') Map.empty =
     \<lparr>trace =
        [Log DEBUG ''Using single voice path: /voices/af.pt'',
         Log DEBUG ''Using voice path: /voices/af.pt'',
         Yield (EncodedChunk True False [82, 73, 0]),
         Log ERROR ''Failed to process tokens: cannot close the stream''],
      raised = None, chunk_index = 1,
      calls =
        [\<lparr>call_text = ''a'', call_tokens = [1], call_first = True, call_last = False\<rparr>,
         \<lparr>call_text = [], call_tokens = [], call_first = False, call_last = True\<rparr>],
      files_after = Map.empty, exhausted = Some 1\<rparr>"
  by (simp add: generate_audio_stream_def demo_noclose_voice process_chunk_def
        process_chunk_body_def emit_audio_def log_events_def final_call_def demo_noclose_simps
        quoted_def)




subsection \<open>The first-chunk and last-chunk flags\<close>

lemma segments_loop_later_not_first:
  assumes "truthy fmt" and "0 < i"
  shows "filter enc_first (yields (loop_events (segments_loop E vn vp sp fmt segs i n))) = []"
proof -
  have "\<not> enc_first c"
    if "c \<in> set (yields (loop_events (segments_loop E vn vp sp fmt segs i n)))" for c
    using segments_loop_encoded[OF assms(1) that] assms(2) by auto
  then show ?thesis by (simp add: filter_empty_conv)
qed

lemma segments_loop_not_last:
  assumes "truthy fmt"
    and "c \<in> set (yields (loop_events (segments_loop E vn vp sp fmt segs i n)))"
  shows "is_encoded c \<and> \<not> enc_last c"
  using segments_loop_encoded[OF assms] by auto

lemma segments_loop_first:
  assumes "truthy fmt"
  shows "yields (loop_events (segments_loop E vn vp sp fmt segs 0 n)) \<noteq> []
    \<Longrightarrow> enc_first (hd (yields (loop_events (segments_loop E vn vp sp fmt segs 0 n))))"
proof (induction segs arbitrary: n)
  case Nil
  then show ?case by simp
next
  case (Cons seg rest)
  obtain t toks where seg: "seg = (t, toks)" by (cases seg)
  define P where "P = process_chunk E t toks vn vp sp fmt (0 = (0::nat)) False n"
  define U where "U = filter (\<lambda>c. c \<noteq> NoneChunk) (yields (fst P))"
  define R where "R = segments_loop E vn vp sp fmt rest (0 + length U) (snd (snd P))"
  have out: "yields (loop_events (segments_loop E vn vp sp fmt (seg # rest) 0 n))
      = U @ (if escapes (fst (snd P)) then [] else yields (loop_events R))"
    unfolding seg segments_loop_Cons R_def U_def P_def by (rule refl)
  show ?case
  proof (cases "U = []")
    case True
    with Cons.prems out have ne: "\<not> escapes (fst (snd P))" "yields (loop_events R) \<noteq> []"
      by (auto split: if_splits)
    from True have R0: "R = segments_loop E vn vp sp fmt rest 0 (snd (snd P))"
      unfolding R_def by simp
    from ne(2) have "enc_first (hd (yields (loop_events R)))"
      unfolding R0 by (rule Cons.IH)
    with True ne(1) show ?thesis unfolding out by simp
  next
    case False
    then have "hd U \<in> set U" by simp
    then have "hd U \<in> set (yields (fst P))" unfolding U_def by simp
    from process_chunk_encoded[OF assms this[unfolded P_def]]
    have "enc_first (hd U)" by auto
    with False show ?thesis unfolding out by simp
  qed
qed

lemma segments_loop_first_legacy:
  assumes "truthy fmt" and "mm_get_backend E = Inr (LegacyBackend d)"
  shows "yields (loop_events (segments_loop E vn vp sp fmt segs 0 n)) \<noteq> []
    \<Longrightarrow> length (filter enc_first (yields (loop_events (segments_loop E vn vp sp fmt segs 0 n))))
        = 1"
proof (induction segs arbitrary: n)
  case Nil
  then show ?case by simp
next
  case (Cons seg rest)
  obtain t toks where seg: "seg = (t, toks)" by (cases seg)
  define P where "P = process_chunk E t toks vn vp sp fmt (0 = (0::nat)) False n"
  define U where "U = filter (\<lambda>c. c \<noteq> NoneChunk) (yields (fst P))"
  define R where "R = segments_loop E vn vp sp fmt rest (0 + length U) (snd (snd P))"
  have out: "yields (loop_events (segments_loop E vn vp sp fmt (seg # rest) 0 n))
      = U @ (if escapes (fst (snd P)) then [] else yields (loop_events R))"
    unfolding seg segments_loop_Cons R_def U_def P_def by (rule refl)
  show ?case
  proof (cases "U = []")
    case True
    with Cons.prems out have ne: "\<not> escapes (fst (snd P))" "yields (loop_events R) \<noteq> []"
      by (auto split: if_splits)
    from True have R0: "R = segments_loop E vn vp sp fmt rest 0 (snd (snd P))"
      unfolding R_def by simp
    from ne(2) have "length (filter enc_first (yields (loop_events R))) = 1"
      unfolding R0 by (rule Cons.IH)
    with True ne(1) show ?thesis unfolding out by simp
  next
    case False
    have "length (yields (fst P)) \<le> 1"
      unfolding P_def by (rule process_chunk_legacy_length[OF assms(2)])
    moreover have "length U \<le> length (yields (fst P))" unfolding U_def by simp
    ultimately have "length U \<le> 1" by simp
    with False obtain c where U1: "U = [c]" by (cases U) auto
    then have "c \<in> set (yields (fst P))"
      using U_def by (metis filter_is_subset list.set_intros(1) subsetD)
    from process_chunk_encoded[OF assms(1) this[unfolded P_def]]
    have c: "enc_first c" by auto
    have "filter enc_first (yields (loop_events R)) = []"
      unfolding R_def U1 by (rule segments_loop_later_not_first[OF assms(1)]) simp
    with c show ?thesis unfolding out U1 by simp
  qed
qed

lemma no_permit_no_chunks:
  assumes "semaphore_acquire E = Some flt"
  shows "yields (loop_events (segments_loop E vn vp sp fmt segs i n)) = []"
proof (induction segs arbitrary: i n)
  case Nil
  show ?case by simp
next
  case (Cons seg rest)
  obtain t toks where seg: "seg = (t, toks)" by (cases seg)
  show ?case
    unfolding seg segments_loop_Cons
    by (simp add: process_chunk_yields assms Cons.IH)
qed

lemma stream_ended_normally:
  assumes "raised (generate_audio_stream E text voice sp fmt fs) = None"
  obtains b lg vn vp fs' segs where "mm_get_backend E = Inr b"
    and "get_voice_path E voice fs = (lg, Inr (vn, vp), fs')"
    and "smart_split E text = (segs, None)"
    and "loop_raised (segments_loop E vn vp sp fmt segs 0 (AudioNormalizer E)) = None"
proof (cases "mm_get_backend E")
  case (Inl f)
  with assms show ?thesis by (simp add: stream_backend_failed[OF Inl])
next
  case (Inr b)
  obtain lg res fs' where gv: "get_voice_path E voice fs = (lg, res, fs')"
    by (cases "get_voice_path E voice fs") auto
  show ?thesis
  proof (cases res)
    case (Inl e)
    with assms gv show ?thesis by (simp add: stream_voice_failed[OF Inr])
  next
    case res: (Inr vv)
    obtain vn vp where vv: "vv = (vn, vp)" by (cases vv)
    obtain segs ended where sp: "smart_split E text = (segs, ended)"
      by (cases "smart_split E text")
    note gv' = gv[unfolded res vv]
    note started = stream_started[OF Inr gv' sp, of sp fmt]
    from assms[unfolded started(5)]
    have lr: "loop_raised (segments_loop E vn vp sp fmt segs 0 (AudioNormalizer E)) = None"
      by (simp split: option.splits)
    with assms[unfolded started(5)] have "ended = None" by (simp split: option.splits)
    with that[OF Inr gv' _ lr] sp show ?thesis by simp
  qed
qed

lemma demo_first_flag_on_every_subchunk:
  "filter enc_first
     (yields (trace (generate_audio_stream demo_kokoro ''hi'' ''af'' 1 (Some ''wav'') Map.empty)))
     = [EncodedChunk True False [82, 73, 0], EncodedChunk True False [82, 73, 1]]"
  by (simp add: demo_kokoro_stream)

section \<open>The claims\<close>



text \<open>
  C2. As stated the claim fails on the finalization unit. On the deployment whose encoder
  cannot close the stream, the text \<^verbatim>\<open>a\<close> gives one chunk, encoded with
  \<^verbatim>\<open>is_first_chunk=True\<close>; the stream ends normally with the counter at 1; but the
  encoder fails on the finalization call, the failure is contained, and no unit encoded
  with \<^verbatim>\<open>is_last_chunk=True\<close> is emitted.
\<close>

theorem first_and_last_flags_counterexample:
  "''a'' \<noteq> []
   \<and> truthy (Some ''wav'')
   \<and> raised (generate_audio_stream demo_noclose ''a'' ''af'' 1 (Some ''wav'') Map.empty) = None
   \<and> chunk_index (generate_audio_stream demo_noclose ''a'' ''af'' 1 (Some ''wav'') Map.empty) = 1
   \<and> yields (trace (generate_audio_stream demo_noclose ''a'' ''af'' 1 (Some ''wav'') Map.empty))
       = [EncodedChunk True False [82, 73, 0]]
   \<and> length (filter enc_last
        (yields (trace (generate_audio_stream demo_noclose ''a'' ''af'' 1 (Some ''wav'')
           Map.empty)))) = 0"
  by (simp add: demo_noclose_stream_one)

text \<open>
  C2, amended. Let the output format be set and the stream end normally with at least one
  chunk emitted. Then the output is the chunks, all encoded, none with
  \<^verbatim>\<open>is_last_chunk=True\<close>, the first of them encoded with \<^verbatim>\<open>is_first_chunk=True\<close>,
  followed by what the encoder gives on the finalization call, made with the normalizer as
  the chunks left it: one unit encoded with \<^verbatim>\<open>is_first_chunk=False\<close> and
  \<^verbatim>\<open>is_last_chunk=True\<close> when the encoder succeeds, nothing when it fails. With the
  token-native backend, which gives one chunk for a segment, exactly one unit of the output
  is encoded with \<^verbatim>\<open>is_first_chunk=True\<close>.
\<close>

theorem first_and_last_flags:
  assumes "truthy output_format"
    and "raised (generate_audio_stream E text voice speed output_format fs) = None"
    and "0 < chunk_index (generate_audio_stream E text voice speed output_format fs)"
  shows "\<exists>units n.
      exhausted (generate_audio_stream E text voice speed output_format fs) = Some n
      \<and> yields (trace (generate_audio_stream E text voice speed output_format fs))
          = units
            @ (case fst (convert_audio E (Some (Arr1 [0])) 24000 (the output_format) False n True)
               of Inr bytes \<Rightarrow> [EncodedChunk False True bytes]
                | Inl f \<Rightarrow> [])
      \<and> units \<noteq> []
      \<and> enc_first (hd units)
      \<and> (\<forall>u\<in>set units. is_encoded u \<and> \<not> enc_last u)
      \<and> ((\<exists>device. mm_get_backend E = Inr (LegacyBackend device)) \<longrightarrow>
           length (filter enc_first
             (yields (trace (generate_audio_stream E text voice speed output_format fs)))) = 1)"
proof -
  from assms(2) obtain b lg vn vp fs' segs where ok: "mm_get_backend E = Inr b"
    "get_voice_path E voice fs = (lg, Inr (vn, vp), fs')" "smart_split E text = (segs, None)"
    and lr: "loop_raised (segments_loop E vn vp speed output_format segs 0 (AudioNormalizer E))
               = None"
    by (rule stream_ended_normally)
  note started = stream_started[OF ok, of speed output_format]
  define S where "S = segments_loop E vn vp speed output_format segs 0 (AudioNormalizer E)"
  define ys where "ys = yields (loop_events S)"
  define fin where "fin =
    (case fst (convert_audio E (Some (Arr1 [0])) 24000 (the output_format) False (loop_norm S) True)
     of Inr bytes \<Rightarrow> [EncodedChunk False True bytes :: 'a chunk]
      | Inl f \<Rightarrow> [])"
  from assms(3) have pos: "0 < loop_index S"
    unfolding started(1) S_def .
  have cnt: "loop_index S = length ys"
    unfolding S_def ys_def
    using segments_loop_count[of E vn vp speed output_format segs 0 "AudioNormalizer E"] by simp
  with pos have ne: "ys \<noteq> []" by auto
  have permit: "semaphore_acquire E = None"
  proof (cases "semaphore_acquire E")
    case (Some flt)
    from no_permit_no_chunks[OF this, of vn vp speed output_format segs 0 "AudioNormalizer E"] ne
    show ?thesis unfolding ys_def S_def by simp
  qed
  have sf: "spec_final E output_format (loop_norm S) = fin"
    unfolding fin_def using assms(1) by (simp add: spec_final_def)
  have ex: "exhausted (generate_audio_stream E text voice speed output_format fs)
      = Some (loop_norm S)"
    unfolding started(2) using lr by (simp add: S_def)
  have out: "yields (trace (generate_audio_stream E text voice speed output_format fs))
               = ys @ fin"
    unfolding started(4)
    using pos lr final_unit[OF permit, of vn vp speed output_format "loop_norm S"]
    by (simp add: S_def[symmetric] ys_def sf)
  have hd1: "enc_first (hd ys)"
    using ne unfolding ys_def S_def by (rule segments_loop_first[OF assms(1)])
  have nl: "\<forall>u\<in>set ys. is_encoded u \<and> \<not> enc_last u"
  proof
    fix u
    assume "u \<in> set ys"
    then show "is_encoded u \<and> \<not> enc_last u"
      unfolding ys_def S_def by (rule segments_loop_not_last[OF assms(1)])
  qed
  have fin_first: "filter enc_first fin = []"
    unfolding fin_def by (simp split: sum.splits)
  have one: "length (filter enc_first (ys @ fin)) = 1"
    if "mm_get_backend E = Inr (LegacyBackend device)" for device
    using segments_loop_first_legacy[OF assms(1) that, of vn vp speed segs "AudioNormalizer E"] ne
    unfolding ys_def S_def by (simp add: fin_first)
  have "exhausted (generate_audio_stream E text voice speed output_format fs) = Some (loop_norm S)
      \<and> yields (trace (generate_audio_stream E text voice speed output_format fs)) = ys @ fin
      \<and> ys \<noteq> [] \<and> enc_first (hd ys) \<and> (\<forall>u\<in>set ys. is_encoded u \<and> \<not> enc_last u)
      \<and> ((\<exists>device. mm_get_backend E = Inr (LegacyBackend device)) \<longrightarrow>
           length (filter enc_first
             (yields (trace (generate_audio_stream E text voice speed output_format fs)))) = 1)"
    using ex out ne hd1 nl one by auto
  then show ?thesis unfolding fin_def by (intro exI[of _ ys] exI[of _ "loop_norm S"])
qed

theorem first_and_last_flags_witness:
  "(\<exists>units.
      yields (trace (generate_audio_stream demo_legacy ''a bb c'' ''af'' 1 (Some ''wav'')
         Map.empty)) = units @ [EncodedChunk False True [2, 255]]
      \<and> units \<noteq> [] \<and> enc_first (hd units))
   \<and> length (filter enc_first
        (yields (trace (generate_audio_stream demo_legacy ''a bb c'' ''af'' 1 (Some ''wav'')
           Map.empty)))) = 1
   \<and> (\<exists>units.
      yields (trace (generate_audio_stream demo_noclose ''a'' ''af'' 1 (Some ''wav'')
         Map.empty)) = units @ []
      \<and> units \<noteq> [] \<and> enc_first (hd units))"
proof -
  have a: "raised (generate_audio_stream demo_legacy ''a bb c'' ''af'' 1 (Some ''wav'') Map.empty)
      = None"
    "0 < chunk_index (generate_audio_stream demo_legacy ''a bb c'' ''af'' 1 (Some ''wav'')
       Map.empty)"
    "exhausted (generate_audio_stream demo_legacy ''a bb c'' ''af'' 1 (Some ''wav'') Map.empty)
      = Some 2"
    by (simp_all add: demo_stream)
  have b: "raised (generate_audio_stream demo_noclose ''a'' ''af'' 1 (Some ''wav'') Map.empty)
      = None"
    "0 < chunk_index (generate_audio_stream demo_noclose ''a'' ''af'' 1 (Some ''wav'')
       Map.empty)"
    "exhausted (generate_audio_stream demo_noclose ''a'' ''af'' 1 (Some ''wav'') Map.empty)
      = Some 1"
    by (simp_all add: demo_noclose_stream_one)
  have t: "truthy (Some ''wav'')" by simp
  from first_and_last_flags[OF t a(1,2)]
  have "(\<exists>units.
      yields (trace (generate_audio_stream demo_legacy ''a bb c'' ''af'' 1 (Some ''wav'')
         Map.empty)) = units @ [EncodedChunk False True [2, 255]]
      \<and> units \<noteq> [] \<and> enc_first (hd units))
   \<and> length (filter enc_first
        (yields (trace (generate_audio_stream demo_legacy ''a bb c'' ''af'' 1 (Some ''wav'')
           Map.empty)))) = 1"
    unfolding a(3) by (auto simp: demo_legacy_simps)
  moreover
  from first_and_last_flags[OF t b(1,2)]
  have "\<exists>units.
      yields (trace (generate_audio_stream demo_noclose ''a'' ''af'' 1 (Some ''wav'')
         Map.empty)) = units @ []
      \<and> units \<noteq> [] \<and> enc_first (hd units)"
    unfolding b(3) by (auto simp: demo_noclose_simps)
  ultimately show ?thesis by blast
qed

text \<open>
  C3. The claim: the raw chunks of the stream, concatenated, are the buffer
  \<^verbatim>\<open>generate_audio\<close> returns. On the token-native deployment and the text \<^verbatim>\<open>a\<close> the raw
  stream (no output format) carries the sample 1, while \<^verbatim>\<open>generate_audio\<close> collects
  two encoded units and raises \<^verbatim>\<open>AttributeError\<close> at \<^verbatim>\<open>c.ndim\<close>.
\<close>

theorem generate_audio_differs_from_raw_stream:
  "concat (map samples_of
      (yields (trace (generate_audio_stream demo_legacy ''a'' ''af'' 1 None Map.empty)))) = [1]
   \<and> collected demo_legacy ''a'' ''af'' 1 Map.empty
       = [EncodedChunk True False [82, 73, 0], EncodedChunk False True [1, 255]]
   \<and> snd (generate_audio demo_legacy ''a'' ''af'' 1 Map.empty)
       = Inl (AttributeError (quoted ''bytes'' @ '' object has no attribute '' @ quoted ''ndim''))"
  by (simp add: demo_stream_one_raw demo_audio_one collected_def demo_stream_one)

text \<open>
  C4. For the empty text, for which the segmenter yields no segment, the stream yields
  nothing and makes no \<^verbatim>\<open>_process_chunk\<close> call at all, so there is no finalization
  unit; and once the request is set up (the backend is there and the voice resolves),
  the stream ends normally and \<^verbatim>\<open>generate_audio\<close> raises the \<^verbatim>\<open>ValueError\<close>
  of line 277, having collected nothing.
\<close>

theorem empty_text_yields_nothing:
  assumes "smart_split E [] = ([], None)"
  shows "yields (trace (generate_audio_stream E [] voice speed output_format fs)) = []
    \<and> calls (generate_audio_stream E [] voice speed output_format fs) = []
    \<and> ((\<exists>b. mm_get_backend E = Inr b) \<and> (\<exists>r. fst (snd (get_voice_path E voice fs)) = Inr r)
         \<longrightarrow> raised (generate_audio_stream E [] voice speed output_format fs) = None
           \<and> snd (generate_audio E [] voice speed fs)
               = Inl (ValueError ''No audio chunks were generated successfully''))"
proof -
  note ns = stream_no_segments[OF assms]
  have "snd (generate_audio E [] voice speed fs)
               = Inl (ValueError ''No audio chunks were generated successfully'')"
    if "mm_get_backend E = Inr b" and "fst (snd (get_voice_path E voice fs)) = Inr r" for b r
    using that by (simp add: generate_audio_def collected_def ns Let_def)
  moreover have "raised (generate_audio_stream E [] voice speed output_format fs) = None"
    if "mm_get_backend E = Inr b" and "fst (snd (get_voice_path E voice fs)) = Inr r" for b r
    using that by (simp add: ns)
  ultimately show ?thesis
    using ns(1,2) by blast
qed

theorem empty_text_yields_nothing_witness:
  "smart_split demo_legacy [] = ([], None)
   \<and> mm_get_backend demo_legacy = Inr (LegacyBackend ''cpu'')
   \<and> fst (snd (get_voice_path demo_legacy ''af'' Map.empty)) = Inr (''af'', ''/voices/af.pt'')
   \<and> yields (trace (generate_audio_stream demo_legacy [] ''af'' 1 (Some ''wav'') Map.empty)) = []
   \<and> calls (generate_audio_stream demo_legacy [] ''af'' 1 (Some ''wav'') Map.empty) = []
   \<and> raised (generate_audio_stream demo_legacy [] ''af'' 1 (Some ''wav'') Map.empty) = None
   \<and> generate_audio demo_legacy [] ''af'' 1 Map.empty
       = ([(DEBUG, ''Using single voice path: /voices/af.pt''),
           (DEBUG, ''Using voice path: /voices/af.pt''),
           (ERROR, ''Error in audio generation: No audio chunks were generated successfully'')],
          Inl (ValueError ''No audio chunks were generated successfully''))"
  using empty_text_yields_nothing
    [where E = demo_legacy and voice = "''af''" and speed = 1 and output_format = "Some ''wav''"
       and fs = Map.empty]
  by (simp add: demo_legacy_simps demo_voice demo_stream_empty generate_audio_def collected_def)

text \<open>
  C5. \<^verbatim>\<open>_get_voice_path\<close> raises \<^verbatim>\<open>RuntimeError("Invalid combined voice name: ...")\<close>
  exactly for the specs that contain a plus sign and leave fewer than two non-empty names
  after splitting on it and stripping whitespace. A spec without a plus sign is looked up
  as it is, as one name: the result is its path, or \<^verbatim>\<open>RuntimeError("Voice not found: ...")\<close>
  when the voice manager has none, and no file is written.
\<close>

theorem invalid_voice_spec_exactly:
  "(fst (snd (get_voice_path E voice fs))
      = Inl (RuntimeError (''Invalid combined voice name: '' @ voice)))
     = (CHR ''+'' \<in> set voice
        \<and> length (filter (\<lambda>v. v \<noteq> []) (map strip (split_on CHR ''+'' voice))) < 2)
   \<and> (CHR ''+'' \<notin> set voice \<longrightarrow>
        fst (snd (get_voice_path E voice fs))
          = (case vm_get_voice_path E voice of
               Inl f \<Rightarrow> Inl (raised_by f)
             | Inr None \<Rightarrow> Inl (RuntimeError (''Voice not found: '' @ voice))
             | Inr (Some p) \<Rightarrow>
                 if p = [] then Inl (RuntimeError (''Voice not found: '' @ voice))
                 else Inr (voice, p))
        \<and> snd (snd (get_voice_path E voice fs)) = fs)"
proof (cases "CHR ''+'' \<in> set voice")
  case True
  show ?thesis
  proof (cases "length (voice_names voice) < 2")
    case short: True
    with True show ?thesis
      by (simp add: get_voice_path_result get_voice_path_body_def Let_def voice_names_def)
  next
    case False
    from combined_not_invalid[OF True False, of E fs] True False show ?thesis
      by (simp add: get_voice_path_result voice_names_def)
  qed
next
  case False
  then show ?thesis
    by (simp add: get_voice_path_result get_voice_path_files get_voice_path_body_def
        raised_by_not_RuntimeError split: sum.splits option.splits)
qed

theorem invalid_voice_spec_exactly_witness:
  "fst (snd (get_voice_path demo_legacy ''a+'' Map.empty))
     = Inl (RuntimeError ''Invalid combined voice name: a+'')
   \<and> fst (snd (get_voice_path demo_legacy ''+b'' Map.empty))
     = Inl (RuntimeError ''Invalid combined voice name: +b'')
   \<and> fst (snd (get_voice_path demo_legacy ''+'' Map.empty))
     = Inl (RuntimeError ''Invalid combined voice name: +'')
   \<and> fst (snd (get_voice_path demo_legacy ''af'' Map.empty)) = Inr (''af'', ''/voices/af.pt'')
   \<and> fst (snd (get_voice_path demo_legacy ''zz'' Map.empty))
     = Inl (RuntimeError ''Voice not found: zz'')"
  using invalid_voice_spec_exactly[of demo_legacy "''a+''" Map.empty]
    invalid_voice_spec_exactly[of demo_legacy "''+b''" Map.empty]
    invalid_voice_spec_exactly[of demo_legacy "''+''" Map.empty]
    invalid_voice_spec_exactly[of demo_legacy "''af''" Map.empty]
    invalid_voice_spec_exactly[of demo_legacy "''zz''" Map.empty]
  by (simp add: strip_def is_space_def demo_legacy_simps)

text \<open>
  C6. Take \<^verbatim>\<open>torch.mean(torch.stack(...), dim=0)\<close> to be the element-wise arithmetic mean
  of section 4.1 on embeddings of one shape, and let \<^verbatim>\<open>torch.save\<close> succeed. For a
  combined spec whose two or more names all resolve to voice files, \<^verbatim>\<open>_get_voice_path\<close>
  returns the scratch path made of the spec, and the file it leaves there is the
  element-wise mean of the loaded embeddings, taken in the order of the names. The
  combination does not depend on that order: a spec with the same names in another order
  (\<^verbatim>\<open>b+a\<close> for \<^verbatim>\<open>a+b\<close>), resolved against the same voices, leaves an equal embedding
  at its own path.
\<close>

theorem combined_voice_is_order_independent_mean:
  assumes mean: "\<And>ts. ts \<noteq> [] \<Longrightarrow> \<forall>t\<in>set ts. length t = d
                  \<Longrightarrow> torch_mean_stack E ts = Inr (elementwise_mean ts)"
    and names: "2 \<le> length (voice_names voice)"
    and voices: "\<forall>v\<in>set (voice_names voice). voice_file E fs v = Some (T v) \<and> length (T v) = d"
    and saved: "torch_save E (path_join (gettempdir E) (voice @ ''.pt'')) = None"
  shows "fst (snd (get_voice_path E voice fs))
           = Inr (voice, path_join (gettempdir E) (voice @ ''.pt''))
     \<and> snd (snd (get_voice_path E voice fs)) (path_join (gettempdir E) (voice @ ''.pt''))
           = Some (elementwise_mean (map T (voice_names voice)))
     \<and> (\<forall>voice' fs'.
           mset (voice_names voice') = mset (voice_names voice)
           \<and> (\<forall>v\<in>set (voice_names voice). voice_file E fs' v = Some (T v))
           \<and> torch_save E (path_join (gettempdir E) (voice' @ ''.pt'')) = None
           \<longrightarrow> snd (snd (get_voice_path E voice' fs')) (path_join (gettempdir E) (voice' @ ''.pt''))
               = snd (snd (get_voice_path E voice fs)) (path_join (gettempdir E) (voice @ ''.pt'')))"
proof -
  have persisted:
    "fst (snd (get_voice_path E w gs)) = Inr (w, path_join (gettempdir E) (w @ ''.pt''))
     \<and> snd (snd (get_voice_path E w gs)) (path_join (gettempdir E) (w @ ''.pt''))
         = Some (elementwise_mean (map T (voice_names w)))"
    if w: "mset (voice_names w) = mset (voice_names voice)"
      and gs: "\<forall>v\<in>set (voice_names voice). voice_file E gs v = Some (T v)"
      and sv: "torch_save E (path_join (gettempdir E) (w @ ''.pt'')) = None"
    for w gs
  proof -
    from w have len: "length (voice_names w) = length (voice_names voice)"
      by (rule mset_eq_length)
    from w have set: "set (voice_names w) = set (voice_names voice)" by (rule mset_eq_setD)
    from len names have n2: "2 \<le> length (voice_names w)" by simp
    then have ne: "map T (voice_names w) \<noteq> []" by auto
    from set voices have "\<forall>t\<in>set (map T (voice_names w)). length t = d" by auto
    with ne have m: "torch_mean_stack E (map T (voice_names w))
        = Inr (elementwise_mean (map T (voice_names w)))" by (rule mean)
    from set gs have g: "\<forall>v\<in>set (voice_names w). voice_file E gs v = Some (T v)" by simp
    from combined_voice_persisted[OF n2 g m sv] show ?thesis
      by (simp add: get_voice_path_result get_voice_path_files)
  qed
  from voices have here: "\<forall>v\<in>set (voice_names voice). voice_file E fs v = Some (T v)" by simp
  note first = persisted[OF refl here saved]
  have "snd (snd (get_voice_path E voice' fs')) (path_join (gettempdir E) (voice' @ ''.pt''))
          = snd (snd (get_voice_path E voice fs)) (path_join (gettempdir E) (voice @ ''.pt''))"
    if w: "mset (voice_names voice') = mset (voice_names voice)"
      and gs: "\<forall>v\<in>set (voice_names voice). voice_file E fs' v = Some (T v)"
      and sv: "torch_save E (path_join (gettempdir E) (voice' @ ''.pt'')) = None"
    for voice' fs'
  proof -
    from names have ne: "map T (voice_names voice) \<noteq> []" by auto
    from voices have sh: "\<forall>t\<in>set (map T (voice_names voice)). length t = d" by auto
    from w have "mset (map T (voice_names voice')) = mset (map T (voice_names voice))"
      by (metis mset_map)
    from elementwise_mean_permuted[OF this ne sh] persisted[OF w gs sv] first
    show ?thesis by simp
  qed
  with first show ?thesis by blast
qed

theorem combined_voice_is_order_independent_mean_witness:
  "fst (snd (get_voice_path demo_voices ''a+b'' demo_files)) = Inr (''a+b'', ''/tmp/a+b.pt'')
   \<and> snd (snd (get_voice_path demo_voices ''a+b'' demo_files)) ''/tmp/a+b.pt'' = Some [2, 7 / 2]
   \<and> snd (snd (get_voice_path demo_voices ''b+a'' demo_files)) ''/tmp/b+a.pt'' = Some [2, 7 / 2]"
proof -
  let ?T = "\<lambda>v. if v = ''a'' then [1, 3] else [3, 4 :: rat]"
  have h1: "torch_mean_stack demo_voices ts = Inr (elementwise_mean ts)" for ts
    by (simp add: demo_voices_simps)
  have h2: "2 \<le> length (voice_names ''a+b'')" by (simp add: voice_names_examples)
  have h3: "\<forall>v\<in>set (voice_names ''a+b'').
      voice_file demo_voices demo_files v = Some (?T v) \<and> length (?T v) = 2"
    by (simp add: voice_names_examples demo_voice_files)
  have h4: "torch_save demo_voices p = None" for p by (simp add: demo_voices_simps)
  note r = combined_voice_is_order_independent_mean[of 2 demo_voices "''a+b''" demo_files ?T,
      OF h1 h2 h3 h4]
  have swapped: "mset (voice_names ''b+a'') = mset (voice_names ''a+b'')
     \<and> (\<forall>v\<in>set (voice_names ''a+b''). voice_file demo_voices demo_files v = Some (?T v))
     \<and> torch_save demo_voices (path_join (gettempdir demo_voices) (''b+a'' @ ''.pt'')) = None"
    by (simp add: voice_names_examples demo_voice_files h4)
  note s = r[THEN conjunct2, THEN conjunct2, rule_format, of "''b+a''" demo_files, OF swapped]
  from r s show ?thesis
    by (simp add: demo_voices_simps voice_names_examples demo_mean path_join_def)
qed







text \<open>
  C10. \<^verbatim>\<open>generate_audio\<close> runs the stream with the default \<^verbatim>\<open>output_format="wav"\<close>:
  the chunks it collects are the units of that stream, every one of them came out of the
  encoder, and whatever it returns is such a unit, never a raw sample array.
\<close>

theorem generate_audio_collects_encoded_units:
  "collected E text voice speed fs
     = filter (\<lambda>chunk. chunk \<noteq> NoneChunk)
         (yields (trace (generate_audio_stream E text voice speed (Some ''wav'') fs)))
   \<and> (\<forall>c\<in>set (collected E text voice speed fs). is_encoded c)
   \<and> (\<forall>audio. snd (generate_audio E text voice speed fs) = Inr audio \<longrightarrow> is_encoded audio)
   \<and> (\<forall>a. snd (generate_audio E text voice speed fs) \<noteq> Inr (RawChunk a))"
proof -
  let ?cs = "collected E text voice speed fs"
  have enc: "\<forall>c\<in>set ?cs. is_encoded c"
    using collected_encoded by blast
  have ret: "is_encoded audio" if "snd (generate_audio E text voice speed fs) = Inr audio" for audio
  proof (cases "?cs = []")
    case True
    with that show ?thesis
      by (simp add: generate_audio_def Let_def split: option.splits)
  next
    case False
    note vc = valid_chunks_encoded[OF False enc]
    show ?thesis
    proof (cases "length ?cs = 1")
      case True
      then have "?cs ! 0 \<in> set ?cs" by simp
      with enc have "is_encoded (?cs ! 0)" by blast
      with that True False show ?thesis
        by (simp add: generate_audio_def Let_def split: option.splits)
    next
      case ne: False
      with that False vc show ?thesis
        by (simp add: generate_audio_def Let_def split: option.splits)
    qed
  qed
  have raw: "snd (generate_audio E text voice speed fs) \<noteq> Inr (RawChunk a)" for a
    using ret[of "RawChunk a"] by auto
  from enc ret raw show ?thesis unfolding collected_def[symmetric] by blast
qed

theorem generate_audio_collects_encoded_units_witness:
  "collected demo_kokoro ''h'' ''af'' 1 Map.empty = [EncodedChunk True False [82, 73, 0]]
   \<and> snd (generate_audio demo_kokoro ''h'' ''af'' 1 Map.empty)
       = Inr (EncodedChunk True False [82, 73, 0])
   \<and> is_encoded (EncodedChunk True False [82, 73, 0] :: nat chunk)"
  using generate_audio_collects_encoded_units[of demo_kokoro "''h''" "''af''" 1 Map.empty]
  by (simp add: demo_kokoro_audio_one collected_def demo_kokoro_stream_one)

end
